theory Spec2Isabelle
  imports Complex_Main "HOL-Library.AList"
begin

section \<open>Python values, strings and conversions\<close>

text \<open>
  The repository is a Flask application written in Python.  Cell values of an imported
  table, attribute values of ORM objects and form values are dynamically typed, so they are
  modelled by one datatype of Python values.  A Python \<open>float\<close> is modelled by the rational
  number it denotes (a missing cell, pandas' NaN, is \<open>PNone\<close> after the import's
  \<open>df.replace\<close>; infinities are not modelled).  Characters are code points below 256.
\<close>

record pydate =
  year :: nat
  month :: nat
  day :: nat

record pydatetime = pydate +
  hour :: nat
  minute :: nat
  second :: nat

datatype pyval =
    PNone
  | PStr string
  | PInt int
  | PFloat rat
  | PDate pydate
  | PDatetime pydatetime

datatype exc =
    ValueError string
  | TypeError string
  | AttributeError string
  | BulkImportError string
  | IntegrityError string
  | OperationalError string

text \<open>\<open>str(e)\<close> of an exception is its message.\<close>

fun str_exc :: "exc \<Rightarrow> string" where
  "str_exc (ValueError m) = m"
| "str_exc (TypeError m) = m"
| "str_exc (AttributeError m) = m"
| "str_exc (BulkImportError m) = m"
| "str_exc (IntegrityError m) = m"
| "str_exc (OperationalError m) = m"

text \<open>
  Two conversions of the Python runtime are not written out and are parameters of the
  model: \<open>float(s)\<close> of a string (\<open>None\<close> when it raises \<open>ValueError\<close>) and \<open>str(x)\<close> of a
  float.
\<close>

record pylib =
  float_of_str :: "string \<Rightarrow> rat option"
  str_of_float :: "rat \<Rightarrow> string"

subsection \<open>Characters and strings\<close>

definition digits :: string where
  "digits = ''0123456789''"

definition is_digit :: "char \<Rightarrow> bool" where
  "is_digit c = (c \<in> set digits)"

definition digit_val :: "char \<Rightarrow> nat" where
  "digit_val c = length (takeWhile (\<lambda>d. d \<noteq> c) digits)"

text \<open>\<open>str.isspace\<close>: the characters that \<open>str.strip()\<close> removes and the regular
  expression class \<open>\s\<close> matches.\<close>

definition is_space :: "char \<Rightarrow> bool" where
  "is_space c = (c \<in> set [CHR 0x09, CHR 0x0A, CHR 0x0B, CHR 0x0C, CHR 0x0D,
                            CHR 0x1C, CHR 0x1D, CHR 0x1E, CHR 0x1F, CHR 0x20,
                            CHR 0x85, CHR 0xA0])"

definition strip :: "string \<Rightarrow> string" where
  "strip s = rev (dropWhile is_space (rev (dropWhile is_space s)))"

fun str_nat :: "nat \<Rightarrow> string" where
  "str_nat n = (if n < 10 then [digits ! n]
                else str_nat (n div 10) @ [digits ! (n mod 10)])"

declare str_nat.simps [simp del]

definition str_int :: "int \<Rightarrow> string" where
  "str_int i = (if i < 0 then CHR ''-'' # str_nat (nat (- i)) else str_nat (nat i))"

text \<open>\<open>'%0wd' % n\<close>: decimal, padded with zeros on the left to width \<open>w\<close>.\<close>

definition zfill :: "nat \<Rightarrow> nat \<Rightarrow> string" where
  "zfill w n = replicate (w - length (str_nat n)) (CHR ''0'') @ str_nat n"

definition isoformat :: "'a pydate_scheme \<Rightarrow> string" where
  "isoformat d = zfill 4 (year d) @ ''-'' @ zfill 2 (month d) @ ''-'' @ zfill 2 (day d)"

definition date_of :: "pydatetime \<Rightarrow> pydate" where
  "date_of dt = \<lparr>year = year dt, month = month dt, day = day dt\<rparr>"

fun py_str :: "pylib \<Rightarrow> pyval \<Rightarrow> string" where
  "py_str L PNone = ''None''"
| "py_str L (PStr s) = s"
| "py_str L (PInt i) = str_int i"
| "py_str L (PFloat q) = str_of_float L q"
| "py_str L (PDate d) = isoformat d"
| "py_str L (PDatetime dt) =
     isoformat dt @ '' '' @ zfill 2 (hour dt) @ '':'' @ zfill 2 (minute dt) @ '':''
       @ zfill 2 (second dt)"

text \<open>Truth value of a Python value (\<open>not v\<close> is its negation).\<close>

fun truthy :: "pyval \<Rightarrow> bool" where
  "truthy PNone = False"
| "truthy (PStr s) = (s \<noteq> [])"
| "truthy (PInt i) = (i \<noteq> 0)"
| "truthy (PFloat q) = (q \<noteq> 0)"
| "truthy (PDate d) = True"
| "truthy (PDatetime dt) = True"

subsection \<open>\<open>int()\<close>\<close>

text \<open>
  \<open>int(s)\<close> of a string: surrounding whitespace is stripped, one sign is allowed, then
  decimal digits follow, with single underscores allowed between digits.  Anything else
  raises \<open>ValueError\<close>.
\<close>

fun int_digits :: "nat \<Rightarrow> string \<Rightarrow> nat option" where
  "int_digits acc [] = Some acc"
| "int_digits acc [c] = (if is_digit c then Some (10 * acc + digit_val c) else None)"
| "int_digits acc (c # d # cs) =
     (if is_digit c then int_digits (10 * acc + digit_val c) (d # cs)
      else if c = CHR ''_'' \<and> is_digit d then int_digits (10 * acc + digit_val d) cs
      else None)"

definition int_literal :: "string \<Rightarrow> nat option" where
  "int_literal s = (case s of [] \<Rightarrow> None
                    | c # cs \<Rightarrow> if is_digit c then int_digits (digit_val c) cs else None)"

definition int_of_str :: "string \<Rightarrow> exc + int" where
  "int_of_str s =
     (let t = strip s;
          r = (case t of
                 [] \<Rightarrow> None
               | c # cs \<Rightarrow>
                   if c = CHR ''-'' then map_option (\<lambda>n. - int n) (int_literal cs)
                   else if c = CHR ''+'' then map_option int (int_literal cs)
                   else map_option int (int_literal t))
      in case r of
           None \<Rightarrow> Inl (ValueError (''invalid literal for int() with base 10: '' @ s))
         | Some i \<Rightarrow> Inr i)"

text \<open>\<open>int(x)\<close> of a float truncates toward zero.\<close>

definition trunc :: "rat \<Rightarrow> int" where
  "trunc q = (if q < 0 then - \<lfloor>- q\<rfloor> else \<lfloor>q\<rfloor>)"

fun py_int :: "pyval \<Rightarrow> exc + int" where
  "py_int (PStr s) = int_of_str s"
| "py_int (PInt i) = Inr i"
| "py_int (PFloat q) = Inr (trunc q)"
| "py_int v = Inl (TypeError ''int() argument must be a string or a real number'')"

fun py_float :: "pylib \<Rightarrow> pyval \<Rightarrow> exc + rat" where
  "py_float L (PStr s) =
     (case float_of_str L s of
        None \<Rightarrow> Inl (ValueError (''could not convert string to float: '' @ s))
      | Some q \<Rightarrow> Inr q)"
| "py_float L (PInt i) = Inr (of_int i)"
| "py_float L (PFloat q) = Inr q"
| "py_float L v = Inl (TypeError ''float() argument must be a string or a real number'')"

subsection \<open>\<open>datetime.strptime\<close>\<close>

text \<open>
  \<open>strptime\<close> turns the format into a regular expression, matches it at the start of the
  text with backtracking, rejects the text when the first match leaves characters over,
  and builds the datetime from the captured groups.  A directive is a list of alternatives
  in the order of the standard library's regular expression, each alternative a list of
  character classes; a run of whitespace in the format matches one or more whitespace
  characters.  The formats used in the repository have the directives
  \<open>%Y %m %d %H %M %S\<close> only.
\<close>

definition d09 :: string where "d09 = ''0123456789''"
definition d19 :: string where "d19 = ''123456789''"

fun alternatives :: "char \<Rightarrow> string list list" where
  "alternatives c =
     (if c = CHR ''Y'' then [[d09, d09, d09, d09]]
      else if c = CHR ''m'' then [[''1'', ''012''], [''0'', d19], [d19]]
      else if c = CHR ''d'' then
        [[''3'', ''01''], [''12'', d09], [''0'', d19], [d19], ['' '', d19]]
      else if c = CHR ''H'' then [[''2'', ''0123''], [''01'', d09], [d09]]
      else if c = CHR ''M'' then [[''012345'', d09], [d09]]
      else if c = CHR ''S'' then [[''6'', ''01''], [''012345'', d09], [d09]]
      else [])"

datatype token = Dir char | Lit char | Spaces

fun compile_format :: "string \<Rightarrow> token list" where
  "compile_format [] = []"
| "compile_format [c] = [if is_space c then Spaces else Lit c]"
| "compile_format (c # d # r) =
     (if c = CHR ''%'' then Dir d # compile_format r
      else if is_space c then
        (case compile_format (d # r) of
           Spaces # ts \<Rightarrow> Spaces # ts
         | ts \<Rightarrow> Spaces # ts)
      else Lit c # compile_format (d # r))"

fun match_classes :: "string list \<Rightarrow> string \<Rightarrow> (string \<times> string) option" where
  "match_classes [] s = Some ([], s)"
| "match_classes (cl # cls) [] = None"
| "match_classes (cl # cls) (c # s) =
     (if c \<in> set cl then map_option (\<lambda>(m, r). (c # m, r)) (match_classes cls s)
      else None)"

text \<open>All ways one token matches a prefix of the text, in the order the backtracking
  matcher tries them: (matched text, rest).\<close>

fun match_token :: "token \<Rightarrow> string \<Rightarrow> (string \<times> string) list" where
  "match_token (Dir c) s = List.map_filter (\<lambda>alt. match_classes alt s) (alternatives c)"
| "match_token (Lit c) s = (case s of [] \<Rightarrow> [] | x # r \<Rightarrow> if x = c then [([x], r)] else [])"
| "match_token Spaces s =
     map (\<lambda>k. (take k s, drop k s)) (rev [1 ..< Suc (length (takeWhile is_space s))])"

fun match_tokens :: "token list \<Rightarrow> string \<Rightarrow> ((char \<times> string) list \<times> string) list" where
  "match_tokens [] s = [([], s)]"
| "match_tokens (t # ts) s =
     concat (map (\<lambda>(m, r).
        map (\<lambda>(caps, r'). ((case t of Dir c \<Rightarrow> (c, m) # caps | _ \<Rightarrow> caps), r'))
            (match_tokens ts r))
       (match_token t s))"

definition is_leap :: "nat \<Rightarrow> bool" where
  "is_leap y = (y mod 4 = 0 \<and> (y mod 100 \<noteq> 0 \<or> y mod 400 = 0))"

definition days_in_month :: "nat \<Rightarrow> nat \<Rightarrow> nat" where
  "days_in_month y m =
     (if m = 2 then (if is_leap y then 29 else 28)
      else if m \<in> {4, 6, 9, 11} then 30 else 31)"

text \<open>The number a captured group denotes (\<open>int(found_dict[..])\<close>; the day may have a
  leading space).\<close>

definition group_val :: "string \<Rightarrow> nat" where
  "group_val m = foldl (\<lambda>a c. 10 * a + digit_val c) 0 (filter is_digit m)"

definition group_or :: "(char \<times> string) list \<Rightarrow> char \<Rightarrow> nat \<Rightarrow> nat" where
  "group_or caps c dflt = (case map_of caps c of None \<Rightarrow> dflt | Some m \<Rightarrow> group_val m)"

definition strptime :: "string \<Rightarrow> string \<Rightarrow> exc + pydatetime" where
  "strptime data_string fmt =
     (case match_tokens (compile_format fmt) data_string of
        [] \<Rightarrow> Inl (ValueError (''time data '' @ data_string @ '' does not match format '' @ fmt))
      | (caps, rest) # _ \<Rightarrow>
          if rest \<noteq> [] then Inl (ValueError (''unconverted data remains: '' @ rest))
          else
            let y = group_or caps (CHR ''Y'') 1900;
                m = group_or caps (CHR ''m'') 1;
                d = group_or caps (CHR ''d'') 1;
                H = group_or caps (CHR ''H'') 0;
                M = group_or caps (CHR ''M'') 0;
                S = group_or caps (CHR ''S'') 0
            in if y < 1 then Inl (ValueError ''year 0 is out of range'')
               else if d < 1 \<or> days_in_month y m < d
                 then Inl (ValueError ''day is out of range for month'')
               else if 59 < S then Inl (ValueError ''second must be in 0..59'')
               else Inr \<lparr>year = y, month = m, day = d, hour = H, minute = M, second = S\<rparr>)"


section \<open>Objects, tables and the database session\<close>

text \<open>
  An ORM object (\<open>Equipment\<close>, \<open>Asset\<close>) is the dictionary of its attributes: the import
  assigns them by name with \<open>setattr\<close>.  An attribute that was never assigned reads \<open>None\<close>.
\<close>

type_synonym obj = "(string \<times> pyval) list"

definition getattr :: "obj \<Rightarrow> string \<Rightarrow> pyval" where
  "getattr e k = (case map_of e k of None \<Rightarrow> PNone | Some v \<Rightarrow> v)"

definition setattr :: "string \<Rightarrow> pyval \<Rightarrow> obj \<Rightarrow> obj" where
  "setattr k v e = AList.update k v e"

text \<open>\<open>MovementLog\<close> and \<open>AuditLog\<close> rows are built with keyword arguments.  Timestamps, the
  rows' own ids and the request provenance of an audit row (address, client string) are
  left out.  The old and new values of an audit row are kept as the dictionaries that
  \<open>json.dumps\<close> serialises.\<close>

record movement_log =
  equipment_id :: pyval
  user_id :: int
  action :: string
  from_location :: pyval
  to_location :: pyval
  from_user_id :: pyval
  to_user_id :: pyval
  movement_notes :: pyval

record audit_log =
  audit_user_id :: int
  audit_equipment_id :: pyval
  audit_action :: string
  table_name :: pyval
  record_id :: pyval
  old_values :: "(string \<times> pyval) list option"
  new_values :: "(string \<times> pyval) list option"

record database =
  equipment_tbl :: "obj list"
  movement_tbl :: "movement_log list"
  audit_tbl :: "audit_log list"

text \<open>The writes a session holds until \<open>db.session.commit()\<close>: objects added with
  \<open>db.session.add\<close> and loaded objects whose attributes were assigned.\<close>

datatype pending =
    Add_equipment obj
  | Dirty_equipment obj
  | Add_movement movement_log
  | Add_audit audit_log

definition id_of :: "obj \<Rightarrow> int" where
  "id_of e = (case getattr e ''id'' of PInt i \<Rightarrow> i | _ \<Rightarrow> 0)"

definition next_id :: "obj list \<Rightarrow> int" where
  "next_id tbl = 1 + foldr max (map id_of tbl) 0"

text \<open>\<open>Equipment.query.filter_by(asset_tag=t).first()\<close> and \<open>Equipment.query.get(id)\<close>.\<close>

definition query_first :: "obj list \<Rightarrow> string \<Rightarrow> pyval \<Rightarrow> obj option" where
  "query_first tbl k v = find (\<lambda>e. getattr e k = v) tbl"

definition query_get :: "obj list \<Rightarrow> int \<Rightarrow> obj option" where
  "query_get tbl i = find (\<lambda>e. getattr e ''id'' = PInt i) tbl"

text \<open>Column defaults applied when a row is inserted: the primary key, and the declared
  defaults of \<open>status\<close> and \<open>condition\<close> where the attribute is \<open>None\<close>.\<close>

definition with_default :: "string \<Rightarrow> pyval \<Rightarrow> obj \<Rightarrow> obj" where
  "with_default k v e = (if getattr e k = PNone then setattr k v e else e)"

definition insert_row :: "obj list \<Rightarrow> obj \<Rightarrow> obj" where
  "insert_row tbl e =
     with_default ''condition'' (PStr ''Good'')
       (with_default ''status'' (PStr ''Available'')
          (setattr ''id'' (PInt (next_id tbl)) e))"

text \<open>An update writes the columns that changed: the unique column is checked again only
  when the object's value of it differs from the stored row's.\<close>

definition key_changed :: "string \<Rightarrow> obj \<Rightarrow> obj list \<Rightarrow> bool" where
  "key_changed key e tbl =
     (case find (\<lambda>r. getattr r ''id'' = getattr e ''id'') tbl of
        None \<Rightarrow> False
      | Some stored \<Rightarrow> getattr stored key \<noteq> getattr e key)"

text \<open>One write against the working copy of the transaction.  The unique column of the
  table (\<open>asset_tag\<close> for equipment, \<open>serial_number\<close> for assets) is the first parameter; an
  insert or an update that would repeat a value of it raises \<open>IntegrityError\<close>.\<close>

fun apply_write :: "string \<Rightarrow> pending \<Rightarrow> database \<Rightarrow> exc + database" where
  "apply_write key (Add_equipment e) db =
     (if \<exists>r \<in> set (equipment_tbl db). getattr r key = getattr e key
      then Inl (IntegrityError (''UNIQUE constraint failed: '' @ key))
      else Inr (db\<lparr>equipment_tbl := equipment_tbl db @ [insert_row (equipment_tbl db) e]\<rparr>))"
| "apply_write key (Dirty_equipment e) db =
     (if key_changed key e (equipment_tbl db)
         \<and> (\<exists>r \<in> set (equipment_tbl db).
                getattr r ''id'' \<noteq> getattr e ''id'' \<and> getattr r key = getattr e key)
      then Inl (IntegrityError (''UNIQUE constraint failed: '' @ key))
      else Inr (db\<lparr>equipment_tbl :=
                  map (\<lambda>r. if getattr r ''id'' = getattr e ''id'' then e else r)
                      (equipment_tbl db)\<rparr>))"
| "apply_write key (Add_movement m) db = Inr (db\<lparr>movement_tbl := movement_tbl db @ [m]\<rparr>)"
| "apply_write key (Add_audit a) db = Inr (db\<lparr>audit_tbl := audit_tbl db @ [a]\<rparr>)"

text \<open>
  \<open>db.session.commit()\<close>: the pending writes are flushed in one transaction.  \<open>fault\<close> is
  the position, among the writes of the whole call, at which the store is made to fail
  (\<open>None\<close>: the store does not fail); \<open>k\<close> is the position of the next write.  A failure at
  any write gives the exception and no database: nothing of the transaction is kept, and
  the caller's \<open>db.session.rollback()\<close> continues with the database as it was.
\<close>

fun flush :: "string \<Rightarrow> nat option \<Rightarrow> nat \<Rightarrow> pending list \<Rightarrow> database \<Rightarrow> exc + database" where
  "flush key fault k [] db = Inr db"
| "flush key fault k (w # ws) db =
     (if fault = Some k then Inl (OperationalError ''database is unavailable'')
      else case apply_write key w db of
             Inl x \<Rightarrow> Inl x
           | Inr db' \<Rightarrow> flush key fault (Suc k) ws db')"

definition session_commit ::
  "string \<Rightarrow> nat option \<Rightarrow> nat \<Rightarrow> pending list \<Rightarrow> database \<Rightarrow> exc + database" where
  "session_commit key fault k ws db = flush key fault k ws db"

text \<open>\<open>log_audit_event\<close> (models.py): one audit row, added and committed on its own.\<close>

definition dumps :: "(string \<times> pyval) list option \<Rightarrow> (string \<times> pyval) list option" where
  "dumps d = (case d of None \<Rightarrow> None | Some kv \<Rightarrow> if kv = [] then None else Some kv)"

definition log_audit_event ::
  "string \<Rightarrow> nat option \<Rightarrow> nat \<Rightarrow> database \<Rightarrow> int \<Rightarrow> string \<Rightarrow> pyval \<Rightarrow> pyval \<Rightarrow>
   (string \<times> pyval) list option \<Rightarrow> (string \<times> pyval) list option \<Rightarrow> pyval \<Rightarrow> exc + database" where
  "log_audit_event key fault k db actor_id act tbl_name rec_id old new eq_id =
     session_commit key fault k
       [Add_audit \<lparr>audit_user_id = actor_id, audit_equipment_id = eq_id, audit_action = act,
                   table_name = tbl_name, record_id = rec_id,
                   old_values = dumps old, new_values = dumps new\<rparr>] db"

section \<open>Bulk import (app/utils/bulk\_operations.py)\<close>

text \<open>A DataFrame: its column names and its rows, each row the cells in column order.
  \<open>getattr(row, field, default)\<close> on a row of \<open>df.itertuples\<close> reads the cell of that column.\<close>

record dataframe =
  columns :: "string list"
  rows :: "pyval list list"

definition row_getattr :: "string list \<Rightarrow> pyval list \<Rightarrow> string \<Rightarrow> pyval \<Rightarrow> pyval" where
  "row_getattr cols r f dflt = (case map_of (zip cols r) f of None \<Rightarrow> dflt | Some v \<Rightarrow> v)"

text \<open>\<open>df.replace({np.nan: None, pd.NA: None, "NA": None, "": None})\<close>.\<close>

definition replace_missing :: "pyval \<Rightarrow> pyval" where
  "replace_missing v = (if v = PStr ''NA'' \<or> v = PStr [] then PNone else v)"

definition REQUIRED_FIELDS :: "string list" where
  "REQUIRED_FIELDS = [''asset_tag'', ''name'', ''category'']"

definition OPTIONAL_FIELDS :: "string list" where
  "OPTIONAL_FIELDS =
     [''description'', ''model_number'', ''manufacturer'', ''serial_number'',
      ''procurement_date'', ''warranty_expiry'', ''status'', ''condition'',
      ''chip_type'', ''package_type'', ''pin_count'', ''temperature_grade'',
      ''testing_status'', ''revision_info'', ''design_files'', ''location'',
      ''purchase_cost'', ''current_value'', ''tags'', ''notes'']"

definition date_formats :: "string list" where
  "date_formats = [''%Y-%m-%d'', ''%m/%d/%Y'', ''%d/%m/%Y'', ''%Y-%m-%d %H:%M:%S'']"

text \<open>The loop of \<open>parse_date\<close> over the formats: the first format that parses wins.\<close>

fun try_formats :: "string list \<Rightarrow> string \<Rightarrow> exc + pyval" where
  "try_formats [] date_str = Inl (BulkImportError (''Invalid date format: '' @ date_str))"
| "try_formats (fmt # fmts) date_str =
     (case strptime date_str fmt of
        Inr dt \<Rightarrow> Inr (PDate (date_of dt))
      | Inl x \<Rightarrow> try_formats fmts date_str)"

definition parse_date :: "pylib \<Rightarrow> pyval \<Rightarrow> exc + pyval" where
  "parse_date L date_str =
     (if date_str = PNone \<or> \<not> truthy date_str \<or> strip (py_str L date_str) = [] then Inr PNone
      else case date_str of
             PDatetime dt \<Rightarrow> Inr (PDate (date_of dt))
           | _ \<Rightarrow> try_formats date_formats (strip (py_str L date_str)))"

text \<open>
  The two sentinel tests of the import are \<open>value in (None, '', pd.NA, np.nan)\<close> and
  \<open>value in ('', 'NA', pd.NA, np.nan)\<close>. Python's \<open>in\<close> walks the tuple from the left and
  asks of each item whether it is the value or equals it, taking the truth value of the
  comparison. \<open>pd.NA == value\<close> is \<open>pd.NA\<close> for every value but \<open>None\<close>, and the truth value
  of \<open>pd.NA\<close> raises \<open>TypeError\<close>; \<open>pd.NA == None\<close> falls back to identity and is false, and
  NaN equals nothing. So a test that reaches the item \<open>pd.NA\<close> with a value that is present
  raises, and the \<open>except\<close> clause of the row loop turns that into an error of the row.
\<close>

datatype item = Val pyval | PdNA | NaN

fun item_eq :: "item \<Rightarrow> pyval \<Rightarrow> exc + bool" where
  "item_eq (Val x) v = Inr (x = v)"
| "item_eq PdNA v =
     (if v = PNone then Inr False else Inl (TypeError ''boolean value of NA is ambiguous''))"
| "item_eq NaN v = Inr False"

fun py_in :: "pyval \<Rightarrow> item list \<Rightarrow> exc + bool" where
  "py_in v [] = Inr False"
| "py_in v (x # xs) =
     (case item_eq x v of
        Inl e \<Rightarrow> Inl e
      | Inr b \<Rightarrow> if b then Inr True else py_in v xs)"

definition convert_field :: "pylib \<Rightarrow> string \<Rightarrow> pyval \<Rightarrow> exc + pyval" where
  "convert_field L field v =
     (case (if field \<in> set [''pin_count''] then
              (case py_in v [Val PNone, Val (PStr []), PdNA, NaN] of
                 Inl x \<Rightarrow> Inl x
               | Inr b \<Rightarrow> if \<not> b then map_sum id PInt (py_int v) else Inr PNone)
            else if field \<in> set [''purchase_cost'', ''current_value''] then
              (case py_in v [Val PNone, Val (PStr []), PdNA, NaN] of
                 Inl x \<Rightarrow> Inl x
               | Inr b \<Rightarrow> if \<not> b then map_sum id PFloat (py_float L v) else Inr PNone)
            else if field \<in> set [''procurement_date'', ''warranty_expiry''] then
              (case py_in v [Val PNone, Val (PStr []), PdNA, NaN] of
                 Inl x \<Rightarrow> Inl x
               | Inr b \<Rightarrow> if \<not> b then parse_date L v else Inr PNone)
            else (case v of PStr s \<Rightarrow> Inr (PStr (strip s)) | _ \<Rightarrow> Inr v)) of
        Inl x \<Rightarrow> Inl x
      | Inr v' \<Rightarrow>
          (case py_in v' [Val (PStr []), Val (PStr ''NA''), PdNA, NaN] of
             Inl x \<Rightarrow> Inl x
           | Inr b \<Rightarrow> Inr (if b then PNone else v')))"

fun set_optional ::
  "pylib \<Rightarrow> string list \<Rightarrow> (string \<Rightarrow> pyval) \<Rightarrow> obj \<Rightarrow> exc + obj" where
  "set_optional L [] row e = Inr e"
| "set_optional L (field # rest) row e =
     (case convert_field L field (row field) of
        Inl x \<Rightarrow> Inl x
      | Inr v \<Rightarrow> set_optional L rest row (setattr field v e))"

text \<open>The body of the row loop: \<open>Inl\<close> the message appended to \<open>results['errors']\<close> (by one
  of the \<open>continue\<close> branches or by the \<open>except\<close> clause), \<open>Inr\<close> the equipment appended to
  \<open>equipment_list\<close>.\<close>

definition import_row ::
  "pylib \<Rightarrow> obj list \<Rightarrow> string list \<Rightarrow> nat \<Rightarrow> pyval list \<Rightarrow> string + obj" where
  "import_row L tbl cols row_num r =
     (let asset_tag = row_getattr cols r ''asset_tag'' PNone in
      if asset_tag = PNone \<or> strip (py_str L asset_tag) = [] then
        Inl (''Row '' @ str_nat row_num @ '': asset_tag is required.'')
      else
        let asset_tag = strip (py_str L asset_tag) in
        if query_first tbl ''asset_tag'' (PStr asset_tag) \<noteq> None then
          Inl (''Row '' @ str_nat row_num @ '': Asset tag '' @ [CHR 0x27] @ asset_tag
               @ [CHR 0x27] @ '' already exists'')
        else
          let equipment = [];
              equipment = setattr ''asset_tag'' (PStr asset_tag) equipment;
              equipment = setattr ''name''
                (PStr (strip (py_str L (row_getattr cols r ''name'' (PStr []))))) equipment;
              equipment = setattr ''category''
                (PStr (strip (py_str L (row_getattr cols r ''category'' (PStr []))))) equipment
          in case set_optional L OPTIONAL_FIELDS (\<lambda>f. row_getattr cols r f PNone) equipment of
               Inl x \<Rightarrow> Inl (''Row '' @ str_nat row_num @ '': '' @ str_exc x)
             | Inr equipment \<Rightarrow> Inr equipment)"

record results =
  success :: nat
  errors :: "string list"
  warnings :: "string list"
  total :: nat

fun import_rows ::
  "pylib \<Rightarrow> obj list \<Rightarrow> string list \<Rightarrow> nat \<Rightarrow> pyval list list \<Rightarrow>
   results \<times> obj list \<Rightarrow> results \<times> obj list" where
  "import_rows L tbl cols row_num [] acc = acc"
| "import_rows L tbl cols row_num (r # rs) (res, equipment_list) =
     (let res = res\<lparr>total := total res + 1\<rparr> in
      case import_row L tbl cols row_num r of
        Inl msg \<Rightarrow>
          import_rows L tbl cols (Suc row_num) rs
            (res\<lparr>errors := errors res @ [msg]\<rparr>, equipment_list)
      | Inr equipment \<Rightarrow>
          import_rows L tbl cols (Suc row_num) rs
            (res\<lparr>success := success res + 1\<rparr>, equipment_list @ [equipment]))"

text \<open>The validation pass of \<open>import_from_dataframe\<close>: the header check, \<open>df.replace\<close> and
  the row loop, which starts counting at 2.  It gives \<open>results\<close> and \<open>equipment_list\<close>.\<close>

definition validate_dataframe ::
  "pylib \<Rightarrow> obj list \<Rightarrow> dataframe \<Rightarrow> results \<times> obj list" where
  "validate_dataframe L tbl df =
     (let res = \<lparr>success = 0, errors = [], warnings = [], total = 0\<rparr>;
          res = res\<lparr>errors :=
                  map (\<lambda>field. ''Missing required field in file: '' @ field)
                      (filter (\<lambda>field. field \<notin> set (columns df)) REQUIRED_FIELDS)\<rparr>
      in if errors res \<noteq> [] then (res, [])
         else import_rows L tbl (columns df) 2 (map (map replace_missing) (rows df)) (res, []))"

definition import_from_dataframe ::
  "pylib \<Rightarrow> nat option \<Rightarrow> database \<Rightarrow> dataframe \<Rightarrow> int \<Rightarrow> bool \<Rightarrow> results \<times> database" where
  "import_from_dataframe L fault db df actor_id dry_run =
     (let (res, equipment_list) = validate_dataframe L (equipment_tbl db) df in
      if \<not> dry_run \<and> equipment_list \<noteq> [] then
        (case session_commit ''asset_tag'' fault 0 (map Add_equipment equipment_list) db of
           Inl x \<Rightarrow> (res\<lparr>errors := errors res @ [''Database error: '' @ str_exc x]\<rparr>, db)
         | Inr db' \<Rightarrow>
             (case log_audit_event ''asset_tag'' fault (length equipment_list) db' actor_id
                     ''bulk_import'' (PStr ''equipment'') PNone None
                     (Some [(''count'', PInt (int (length equipment_list)))]) PNone of
                Inl x \<Rightarrow> (res\<lparr>errors := errors res @ [''Database error: '' @ str_exc x]\<rparr>, db')
              | Inr db'' \<Rightarrow> (res, db'')))
      else (res, db))"


text \<open>The outcomes of the rows of a table, each row taken on its own against the stored
  equipment, with the messages and the drafts among them.\<close>

fun messages :: "(string + obj) list \<Rightarrow> string list" where
  "messages [] = []"
| "messages (Inl m # os) = m # messages os"
| "messages (Inr e # os) = messages os"

fun drafts :: "(string + obj) list \<Rightarrow> obj list" where
  "drafts [] = []"
| "drafts (Inl m # os) = drafts os"
| "drafts (Inr e # os) = e # drafts os"

definition row_outcomes ::
  "pylib \<Rightarrow> obj list \<Rightarrow> string list \<Rightarrow> nat \<Rightarrow> pyval list list \<Rightarrow> (string + obj) list" where
  "row_outcomes L tbl cols n rs =
     map (\<lambda>(k, r). import_row L tbl cols k r) (zip [n ..< n + length rs] rs)"

section \<open>Bulk import of assets (asset\_app/utils/bulk\_operations.py)\<close>

text \<open>The second application imports assets, keyed by their serial number, with the same
  header check, \<open>df.replace\<close>, row numbering and \<open>parse_date\<close>.  Its validation pass is
  modelled; its commit step is the one of the equipment import.\<close>

definition ASSET_REQUIRED_FIELDS :: "string list" where
  "ASSET_REQUIRED_FIELDS = [''invoice_no'', ''serial_number'', ''description'', ''owner_email'']"

definition ASSET_OPTIONAL_FIELDS :: "string list" where
  "ASSET_OPTIONAL_FIELDS =
     [''invoice_date'', ''purchase_order_no'', ''received_date'', ''manufacturer'',
      ''model'', ''vendor'', ''mfg_country'', ''hsn_code'', ''is_bonded'',
      ''last_calibrated'', ''next_calibration'', ''notes'', ''entry_no'',
      ''returnable'', ''cap_x'', ''amortization_period'', ''status'',
      ''team'', ''recipient_name'', ''recipient_email'', ''category'',
      ''sub_category'', ''location'']"

definition asset_convert_field :: "pylib \<Rightarrow> string \<Rightarrow> pyval \<Rightarrow> exc + pyval" where
  "asset_convert_field L field v =
     (let v = (if v = PNone \<or> v \<in> set [PStr [], PStr ''NA''] then PNone else v) in
      if field \<in> set [''invoice_date'', ''received_date'', ''last_calibrated'',
                      ''next_calibration''] \<and> v \<noteq> PNone
      then parse_date L v
      else (case v of PStr s \<Rightarrow> Inr (PStr (strip s)) | _ \<Rightarrow> Inr v))"

fun asset_set_optional ::
  "pylib \<Rightarrow> string list \<Rightarrow> (string \<Rightarrow> pyval) \<Rightarrow> obj \<Rightarrow> exc + obj" where
  "asset_set_optional L [] row a = Inr a"
| "asset_set_optional L (field # rest) row a =
     (case asset_convert_field L field (row field) of
        Inl x \<Rightarrow> Inl x
      | Inr v \<Rightarrow> asset_set_optional L rest row (setattr field v a))"

definition import_asset_row ::
  "pylib \<Rightarrow> obj list \<Rightarrow> string list \<Rightarrow> nat \<Rightarrow> pyval list \<Rightarrow> string + obj" where
  "import_asset_row L tbl cols row_num r =
     (let serial_number = row_getattr cols r ''serial_number'' PNone in
      if serial_number = PNone \<or> strip (py_str L serial_number) = [] then
        Inl (''Row '' @ str_nat row_num @ '': serial_number is required.'')
      else
        let serial_number = strip (py_str L serial_number) in
        if query_first tbl ''serial_number'' (PStr serial_number) \<noteq> None then
          Inl (''Row '' @ str_nat row_num @ '': Serial number '' @ [CHR 0x27] @ serial_number
               @ [CHR 0x27] @ '' already exists'')
        else
          let asset = [];
              asset = setattr ''serial_number'' (PStr serial_number) asset;
              asset = setattr ''invoice_no''
                (PStr (strip (py_str L (row_getattr cols r ''invoice_no'' (PStr []))))) asset;
              asset = setattr ''description''
                (PStr (strip (py_str L (row_getattr cols r ''description'' (PStr []))))) asset;
              asset = setattr ''owner_email''
                (PStr (strip (py_str L (row_getattr cols r ''owner_email'' (PStr []))))) asset
          in if \<not> truthy (getattr asset ''invoice_no'') then
               Inl (''Row '' @ str_nat row_num @ '': invoice_no is required.'')
             else if \<not> truthy (getattr asset ''description'') then
               Inl (''Row '' @ str_nat row_num @ '': description is required.'')
             else if \<not> truthy (getattr asset ''owner_email'') then
               Inl (''Row '' @ str_nat row_num @ '': owner_email is required.'')
             else
               case asset_set_optional L ASSET_OPTIONAL_FIELDS
                      (\<lambda>f. row_getattr cols r f PNone) asset of
                 Inl x \<Rightarrow> Inl (''Row '' @ str_nat row_num @ '': '' @ str_exc x)
               | Inr asset \<Rightarrow> Inr asset)"

fun import_asset_rows ::
  "pylib \<Rightarrow> obj list \<Rightarrow> string list \<Rightarrow> nat \<Rightarrow> pyval list list \<Rightarrow>
   results \<times> obj list \<Rightarrow> results \<times> obj list" where
  "import_asset_rows L tbl cols row_num [] acc = acc"
| "import_asset_rows L tbl cols row_num (r # rs) (res, asset_list) =
     (let res = res\<lparr>total := total res + 1\<rparr> in
      case import_asset_row L tbl cols row_num r of
        Inl msg \<Rightarrow>
          import_asset_rows L tbl cols (Suc row_num) rs
            (res\<lparr>errors := errors res @ [msg]\<rparr>, asset_list)
      | Inr asset \<Rightarrow>
          import_asset_rows L tbl cols (Suc row_num) rs
            (res\<lparr>success := success res + 1\<rparr>, asset_list @ [asset]))"

definition validate_assets ::
  "pylib \<Rightarrow> obj list \<Rightarrow> dataframe \<Rightarrow> results \<times> obj list" where
  "validate_assets L tbl df =
     (let res = \<lparr>success = 0, errors = [], warnings = [], total = 0\<rparr>;
          res = res\<lparr>errors :=
                  map (\<lambda>field. ''Missing required field in file: '' @ field)
                      (filter (\<lambda>field. field \<notin> set (columns df)) ASSET_REQUIRED_FIELDS)\<rparr>
      in if errors res \<noteq> [] then (res, [])
         else import_asset_rows L tbl (columns df) 2 (map (map replace_missing) (rows df))
                (res, []))"

definition asset_row_outcomes ::
  "pylib \<Rightarrow> obj list \<Rightarrow> string list \<Rightarrow> nat \<Rightarrow> pyval list list \<Rightarrow> (string + obj) list" where
  "asset_row_outcomes L tbl cols n rs =
     map (\<lambda>(k, r). import_asset_row L tbl cols k r) (zip [n ..< n + length rs] rs)"

section \<open>Inventory routes (app/routes/inventory.py)\<close>

text \<open>\<open>User.has_permission\<close> (models.py).\<close>

record user =
  uid :: int
  role :: string

definition permissions :: "string \<Rightarrow> string list" where
  "permissions r =
     (if r = ''Admin'' then
        [''create'', ''read'', ''update'', ''delete'', ''bulk_import'', ''user_management'']
      else if r = ''Lab Staff'' then
        [''create'', ''read'', ''update'', ''delete'', ''bulk_import'']
      else if r = ''Researcher'' then [''read'', ''update'', ''checkout'', ''checkin'']
      else if r = ''Read-only'' then [''read'']
      else [])"

definition has_permission :: "user \<Rightarrow> string \<Rightarrow> bool" where
  "has_permission u act = (act \<in> set (permissions (role u)))"

definition is_available :: "obj \<Rightarrow> bool" where
  "is_available e = (getattr e ''status'' = PStr ''Available'')"

text \<open>What a route answers: \<open>get_or_404\<close> found nothing, or a message was flashed with its
  category (and the client redirected or the form rendered again).\<close>

datatype response = Not_found | Flash string string

definition checkout ::
  "pylib \<Rightarrow> nat option \<Rightarrow> database \<Rightarrow> user \<Rightarrow> int \<Rightarrow> response \<times> database" where
  "checkout L fault db current_user i =
     (case query_get (equipment_tbl db) i of
        None \<Rightarrow> (Not_found, db)
      | Some equipment \<Rightarrow>
          if \<not> is_available equipment then
            (Flash ''Equipment is not available for checkout'' ''error'', db)
          else if \<not> has_permission current_user ''checkout'' then
            (Flash ''You do not have permission to checkout equipment'' ''error'', db)
          else
            let equipment' = setattr ''assigned_to_id'' (PInt (uid current_user))
                               (setattr ''status'' (PStr ''In Use'') equipment);
                movement = \<lparr>equipment_id = getattr equipment ''id'', user_id = uid current_user,
                             action = ''checkout'', from_location = PNone,
                             to_location = getattr equipment ''location'',
                             from_user_id = PNone, to_user_id = PInt (uid current_user),
                             movement_notes = PStr ''Self-checkout''\<rparr>
            in case session_commit ''asset_tag'' fault 0
                      [Dirty_equipment equipment', Add_movement movement] db of
                 Inl x \<Rightarrow>
                   (Flash (''Error checking out equipment: '' @ str_exc x) ''error'', db)
               | Inr db' \<Rightarrow>
                   (case log_audit_event ''asset_tag'' fault 2 db' (uid current_user)
                           ''checkout_equipment'' (PStr ''equipment'') (getattr equipment ''id'')
                           (Some [(''status'', PStr ''Available''), (''assigned_to_id'', PNone)])
                           (Some [(''status'', PStr ''In Use''),
                                  (''assigned_to_id'', PInt (uid current_user))])
                           (getattr equipment ''id'') of
                      Inl x \<Rightarrow>
                        (Flash (''Error checking out equipment: '' @ str_exc x) ''error'', db')
                    | Inr db'' \<Rightarrow>
                        (Flash (''Equipment '' @ py_str L (getattr equipment ''asset_tag'')
                                @ '' checked out successfully'') ''success'', db'')))"

definition checkin ::
  "pylib \<Rightarrow> nat option \<Rightarrow> database \<Rightarrow> user \<Rightarrow> int \<Rightarrow> response \<times> database" where
  "checkin L fault db current_user i =
     (case query_get (equipment_tbl db) i of
        None \<Rightarrow> (Not_found, db)
      | Some equipment \<Rightarrow>
          if getattr equipment ''assigned_to_id'' \<noteq> PInt (uid current_user)
             \<and> \<not> has_permission current_user ''update'' then
            (Flash ''You can only check in equipment assigned to you'' ''error'', db)
          else
            let old_assigned_to = getattr equipment ''assigned_to_id'';
                equipment' = setattr ''assigned_to_id'' PNone
                               (setattr ''status'' (PStr ''Available'') equipment);
                movement = \<lparr>equipment_id = getattr equipment ''id'', user_id = uid current_user,
                             action = ''checkin'', from_location = PNone,
                             to_location = getattr equipment ''location'',
                             from_user_id = old_assigned_to, to_user_id = PNone,
                             movement_notes = PStr ''Equipment returned''\<rparr>
            in case session_commit ''asset_tag'' fault 0
                      [Dirty_equipment equipment', Add_movement movement] db of
                 Inl x \<Rightarrow>
                   (Flash (''Error checking in equipment: '' @ str_exc x) ''error'', db)
               | Inr db' \<Rightarrow>
                   (case log_audit_event ''asset_tag'' fault 2 db' (uid current_user)
                           ''checkin_equipment'' (PStr ''equipment'') (getattr equipment ''id'')
                           (Some [(''status'', PStr ''In Use''),
                                  (''assigned_to_id'', old_assigned_to)])
                           (Some [(''status'', PStr ''Available''), (''assigned_to_id'', PNone)])
                           (getattr equipment ''id'') of
                      Inl x \<Rightarrow>
                        (Flash (''Error checking in equipment: '' @ str_exc x) ''error'', db')
                    | Inr db'' \<Rightarrow>
                        (Flash (''Equipment '' @ py_str L (getattr equipment ''asset_tag'')
                                @ '' checked in successfully'') ''success'', db'')))"

text \<open>
  The add and edit forms.  \<open>request.form\<close> maps field names to texts; \<open>get(k)\<close> gives
  \<open>None\<close> for a field that was not sent, and \<open>None.strip()\<close> raises \<open>AttributeError\<close>.
  The steps of the handlers that can raise are chained in the order of the source; the
  assignments are then applied in the order of the source, a later one overriding an
  earlier one.
\<close>

type_synonym form = "(string \<times> string) list"

definition try_bind :: "exc + 'a \<Rightarrow> ('a \<Rightarrow> exc + 'b) \<Rightarrow> exc + 'b" where
  "try_bind m f = (case m of Inl x \<Rightarrow> Inl x | Inr a \<Rightarrow> f a)"

definition form_get_or :: "form \<Rightarrow> string \<Rightarrow> string \<Rightarrow> string" where
  "form_get_or f k dflt = (case map_of f k of None \<Rightarrow> dflt | Some s \<Rightarrow> s)"

definition strip_required :: "form \<Rightarrow> string \<Rightarrow> exc + pyval" where
  "strip_required f k =
     (case map_of f k of
        None \<Rightarrow> Inl (AttributeError ''NoneType object has no attribute strip'')
      | Some s \<Rightarrow> Inr (PStr (strip s)))"

definition form_strip :: "form \<Rightarrow> string \<Rightarrow> pyval" where
  "form_strip f k = PStr (strip (form_get_or f k []))"

definition strip_or_none :: "form \<Rightarrow> string \<Rightarrow> pyval" where
  "strip_or_none f k = (if strip (form_get_or f k []) = [] then PNone
                        else PStr (strip (form_get_or f k [])))"

text \<open>The optional conversions: \<open>None\<close> when the field is empty and nothing is converted.\<close>

definition form_date :: "form \<Rightarrow> string \<Rightarrow> exc + pyval option" where
  "form_date f k =
     (case map_of f k of
        None \<Rightarrow> Inr None
      | Some s \<Rightarrow>
          if s = [] then Inr None
          else map_sum id (\<lambda>dt. Some (PDate (date_of dt))) (strptime s ''%Y-%m-%d''))"

definition form_int :: "form \<Rightarrow> string \<Rightarrow> exc + pyval option" where
  "form_int f k =
     (let s = strip (form_get_or f k []) in
      if s = [] then Inr None else map_sum id (\<lambda>i. Some (PInt i)) (int_of_str s))"

definition form_assigned :: "form \<Rightarrow> exc + pyval option" where
  "form_assigned f =
     (case map_of f ''assigned_to'' of
        None \<Rightarrow> Inr None
      | Some s \<Rightarrow> if s = [] then Inr None else map_sum id (\<lambda>i. Some (PInt i)) (int_of_str s))"

definition form_float :: "pylib \<Rightarrow> form \<Rightarrow> string \<Rightarrow> exc + pyval option" where
  "form_float L f k =
     (let s = strip (form_get_or f k []) in
      if s = [] then Inr None else map_sum id (\<lambda>q. Some (PFloat q)) (py_float L (PStr s)))"

fun split_on :: "char \<Rightarrow> string \<Rightarrow> string list" where
  "split_on c [] = [[]]"
| "split_on c (x # xs) =
     (if x = c then [] # split_on c xs
      else (case split_on c xs of [] \<Rightarrow> [[x]] | w # ws \<Rightarrow> (x # w) # ws))"

fun join :: "string \<Rightarrow> string list \<Rightarrow> string" where
  "join sep [] = []"
| "join sep [w] = w"
| "join sep (w # v # ws) = w @ sep @ join sep (v # ws)"

text \<open>The tag list of the form and \<open>Equipment.set_tags_list\<close>.\<close>

definition tags_of_input :: "string \<Rightarrow> pyval" where
  "tags_of_input tags_input =
     (let tags_list = filter (\<lambda>t. t \<noteq> []) (map strip (split_on (CHR '','') tags_input))
      in PStr (if tags_list \<noteq> [] then join '', '' tags_list else []))"

definition assign_all :: "(string \<times> pyval) list \<Rightarrow> obj \<Rightarrow> obj" where
  "assign_all kvs e = foldl (\<lambda>e (k, v). setattr k v e) e kvs"

definition assign_if :: "string \<Rightarrow> pyval option \<Rightarrow> (string \<times> pyval) list" where
  "assign_if k vo = (case vo of None \<Rightarrow> [] | Some v \<Rightarrow> [(k, v)])"

definition or_none :: "pyval option \<Rightarrow> pyval" where
  "or_none vo = (case vo of None \<Rightarrow> PNone | Some v \<Rightarrow> v)"

text \<open>The handlers' \<open>except ValueError\<close> and \<open>except Exception\<close> clauses.\<close>

definition flash_exception :: "string \<Rightarrow> exc \<Rightarrow> response" where
  "flash_exception prefix x =
     (case x of
        ValueError m \<Rightarrow> Flash (''Invalid input: '' @ m) ''error''
      | _ \<Rightarrow> Flash (prefix @ str_exc x) ''error'')"

text \<open>\<open>add_equipment\<close>, the POST branch: the new equipment built from the form.\<close>

definition add_form :: "pylib \<Rightarrow> form \<Rightarrow> exc + obj" where
  "add_form L f =
     try_bind (strip_required f ''asset_tag'') (\<lambda>asset_tag.
     try_bind (strip_required f ''name'') (\<lambda>name.
     try_bind (strip_required f ''category'') (\<lambda>category.
     try_bind (form_date f ''procurement_date'') (\<lambda>procurement_date.
     try_bind (form_date f ''warranty_expiry'') (\<lambda>warranty_expiry.
     try_bind (form_int f ''pin_count'') (\<lambda>pin_count.
     try_bind (form_assigned f) (\<lambda>assigned_to.
     try_bind (form_float L f ''purchase_cost'') (\<lambda>purchase_cost.
       Inr (assign_all
         ([(''asset_tag'', asset_tag), (''name'', name),
           (''description'', form_strip f ''description''), (''category'', category),
           (''model_number'', form_strip f ''model_number''),
           (''manufacturer'', form_strip f ''manufacturer''),
           (''serial_number'', form_strip f ''serial_number'')]
          @ assign_if ''procurement_date'' procurement_date
          @ assign_if ''warranty_expiry'' warranty_expiry
          @ [(''status'', PStr (form_get_or f ''status'' ''Available'')),
             (''condition'', PStr (form_get_or f ''condition'' ''Good'')),
             (''chip_type'', strip_or_none f ''chip_type''),
             (''package_type'', strip_or_none f ''package_type'')]
          @ assign_if ''pin_count'' pin_count
          @ [(''temperature_grade'', strip_or_none f ''temperature_grade''),
             (''testing_status'', strip_or_none f ''testing_status''),
             (''revision_info'', strip_or_none f ''revision_info''),
             (''design_files'', strip_or_none f ''design_files''),
             (''location'', form_strip f ''location'')]
          @ (case assigned_to of
               None \<Rightarrow> []
             | Some a \<Rightarrow> [(''assigned_to_id'', a), (''status'', PStr ''In Use'')])
          @ assign_if ''purchase_cost'' purchase_cost
          @ assign_if ''current_value'' purchase_cost
          @ (if strip (form_get_or f ''tags'' []) \<noteq> []
             then [(''tags'', tags_of_input (strip (form_get_or f ''tags'' [])))] else [])
          @ [(''notes'', strip_or_none f ''notes'')])
         [])))))))))"

definition add_equipment ::
  "pylib \<Rightarrow> nat option \<Rightarrow> database \<Rightarrow> user \<Rightarrow> form \<Rightarrow> response \<times> database" where
  "add_equipment L fault db current_user f =
     (if \<not> has_permission current_user ''create'' then
        (Flash ''You do not have permission to add equipment'' ''error'', db)
      else
        case add_form L f of
          Inl x \<Rightarrow> (flash_exception ''Error adding equipment: '' x, db)
        | Inr equipment \<Rightarrow>
            if \<not> truthy (getattr equipment ''asset_tag'') then
              (Flash ''Asset tag is required'' ''error'', db)
            else if \<not> truthy (getattr equipment ''name'') then
              (Flash ''Name is required'' ''error'', db)
            else if query_first (equipment_tbl db) ''asset_tag'' (getattr equipment ''asset_tag'')
                    \<noteq> None then
              (Flash (''Asset tag '' @ py_str L (getattr equipment ''asset_tag'')
                      @ '' already exists'') ''error'', db)
            else
              case session_commit ''asset_tag'' fault 0 [Add_equipment equipment] db of
                Inl x \<Rightarrow> (flash_exception ''Error adding equipment: '' x, db)
              | Inr db1 \<Rightarrow>
                  let equipment = insert_row (equipment_tbl db) equipment;
                      done = Flash (''Equipment '' @ py_str L (getattr equipment ''asset_tag'')
                                    @ '' added successfully'') ''success''
                  in case log_audit_event ''asset_tag'' fault 1 db1 (uid current_user)
                            ''create_equipment'' (PStr ''equipment'') (getattr equipment ''id'')
                            None
                            (Some [(''asset_tag'', getattr equipment ''asset_tag''),
                                   (''name'', getattr equipment ''name''),
                                   (''category'', getattr equipment ''category'')])
                            (getattr equipment ''id'') of
                       Inl x \<Rightarrow> (flash_exception ''Error adding equipment: '' x, db1)
                     | Inr db2 \<Rightarrow>
                         if truthy (getattr equipment ''assigned_to_id'') then
                           (case session_commit ''asset_tag'' fault 2
                                   [Add_movement
                                      \<lparr>equipment_id = getattr equipment ''id'',
                                       user_id = uid current_user, action = ''assign'',
                                       from_location = PNone,
                                       to_location = getattr equipment ''location'',
                                       from_user_id = PNone,
                                       to_user_id = getattr equipment ''assigned_to_id'',
                                       movement_notes =
                                         PStr ''Initial assignment during creation''\<rparr>] db2 of
                              Inl x \<Rightarrow> (flash_exception ''Error adding equipment: '' x, db2)
                            | Inr db3 \<Rightarrow> (done, db3))
                         else (done, db2))"

text \<open>\<open>edit\<close>, the POST branch: the loaded equipment with the form applied, and the movement
  event added when the assignee changed.\<close>

definition edit_form ::
  "pylib \<Rightarrow> user \<Rightarrow> form \<Rightarrow> obj \<Rightarrow> exc + obj \<times> movement_log list" where
  "edit_form L current_user f equipment =
     try_bind (strip_required f ''asset_tag'') (\<lambda>asset_tag.
     try_bind (strip_required f ''name'') (\<lambda>name.
     try_bind (strip_required f ''category'') (\<lambda>category.
     try_bind (form_date f ''procurement_date'') (\<lambda>procurement_date.
     try_bind (form_date f ''warranty_expiry'') (\<lambda>warranty_expiry.
     try_bind (form_int f ''pin_count'') (\<lambda>pin_count.
     try_bind (form_assigned f) (\<lambda>assigned_to.
     try_bind (form_float L f ''purchase_cost'') (\<lambda>purchase_cost.
     try_bind (form_float L f ''current_value'') (\<lambda>current_value.
       let old_assigned_to = getattr equipment ''assigned_to_id'';
           new_assigned_to = or_none assigned_to;
           location = form_strip f ''location''
       in Inr
         (assign_all
           ([(''asset_tag'', asset_tag), (''name'', name),
             (''description'', form_strip f ''description''), (''category'', category),
             (''model_number'', form_strip f ''model_number''),
             (''manufacturer'', form_strip f ''manufacturer''),
             (''serial_number'', form_strip f ''serial_number''),
             (''procurement_date'', or_none procurement_date),
             (''warranty_expiry'', or_none warranty_expiry),
             (''status'', PStr (form_get_or f ''status'' ''Available'')),
             (''condition'', PStr (form_get_or f ''condition'' ''Good'')),
             (''chip_type'', strip_or_none f ''chip_type''),
             (''package_type'', strip_or_none f ''package_type''),
             (''pin_count'', or_none pin_count),
             (''temperature_grade'', strip_or_none f ''temperature_grade''),
             (''testing_status'', strip_or_none f ''testing_status''),
             (''revision_info'', strip_or_none f ''revision_info''),
             (''design_files'', strip_or_none f ''design_files''),
             (''location'', location)]
            @ (if old_assigned_to \<noteq> new_assigned_to then
                 [(''assigned_to_id'', new_assigned_to),
                  (''status'', PStr (if truthy new_assigned_to then ''In Use'' else ''Available''))]
               else [])
            @ [(''purchase_cost'', or_none purchase_cost),
               (''current_value'',
                  (case current_value of None \<Rightarrow> or_none purchase_cost | Some v \<Rightarrow> v)),
               (''tags'', if strip (form_get_or f ''tags'' []) \<noteq> []
                          then tags_of_input (strip (form_get_or f ''tags'' [])) else PNone),
               (''notes'', strip_or_none f ''notes'')])
           equipment,
          if old_assigned_to \<noteq> new_assigned_to then
            [if truthy new_assigned_to then
               \<lparr>equipment_id = getattr equipment ''id'', user_id = uid current_user,
                action = ''assign'', from_location = PNone, to_location = location,
                from_user_id = old_assigned_to, to_user_id = new_assigned_to,
                movement_notes = PStr ''Assignment changed via edit''\<rparr>
             else
               \<lparr>equipment_id = getattr equipment ''id'', user_id = uid current_user,
                action = ''unassign'', from_location = PNone, to_location = location,
                from_user_id = old_assigned_to, to_user_id = PNone,
                movement_notes = PStr ''Unassigned via edit''\<rparr>]
          else []))))))))))"

definition audit_values :: "obj \<Rightarrow> (string \<times> pyval) list" where
  "audit_values e =
     [(''asset_tag'', getattr e ''asset_tag''), (''name'', getattr e ''name''),
      (''status'', getattr e ''status''), (''assigned_to_id'', getattr e ''assigned_to_id''),
      (''location'', getattr e ''location'')]"

definition edit ::
  "pylib \<Rightarrow> nat option \<Rightarrow> database \<Rightarrow> user \<Rightarrow> int \<Rightarrow> form \<Rightarrow> response \<times> database" where
  "edit L fault db current_user i f =
     (case query_get (equipment_tbl db) i of
        None \<Rightarrow> (Not_found, db)
      | Some equipment \<Rightarrow>
          if \<not> has_permission current_user ''update'' then
            (Flash ''You do not have permission to edit equipment'' ''error'', db)
          else
            case edit_form L current_user f equipment of
              Inl x \<Rightarrow> (flash_exception ''Error updating equipment: '' x, db)
            | Inr (equipment', movements) \<Rightarrow>
                (case session_commit ''asset_tag'' fault 0
                        (Dirty_equipment equipment' # map Add_movement movements) db of
                   Inl x \<Rightarrow> (flash_exception ''Error updating equipment: '' x, db)
                 | Inr db1 \<Rightarrow>
                     (case log_audit_event ''asset_tag'' fault (Suc (length movements)) db1
                             (uid current_user) ''update_equipment'' (PStr ''equipment'')
                             (getattr equipment' ''id'') (Some (audit_values equipment))
                             (Some (audit_values equipment')) (getattr equipment' ''id'') of
                        Inl x \<Rightarrow> (flash_exception ''Error updating equipment: '' x, db1)
                      | Inr db2 \<Rightarrow>
                          (Flash (''Equipment '' @ py_str L (getattr equipment' ''asset_tag'')
                                  @ '' updated successfully'') ''success'', db2))))"

text \<open>The assignee of an entity is non-null exactly when its status is \<open>In Use\<close>.\<close>

definition assignment_consistent :: "obj \<Rightarrow> bool" where
  "assignment_consistent e =
     ((getattr e ''assigned_to_id'' \<noteq> PNone) = (getattr e ''status'' = PStr ''In Use''))"

text \<open>The form names an assignee: \<open>assigned_to\<close> was sent and is not empty.\<close>

definition names_assignee :: "form \<Rightarrow> bool" where
  "names_assignee f = (case map_of f ''assigned_to'' of None \<Rightarrow> False | Some s \<Rightarrow> s \<noteq> [])"


section \<open>Sample data\<close>

definition lib0 :: pylib where
  "lib0 = \<lparr>float_of_str = (\<lambda>s. None), str_of_float = (\<lambda>q. ''0.0'')\<rparr>"

definition empty_db :: database where
  "empty_db = \<lparr>equipment_tbl = [], movement_tbl = [], audit_tbl = []\<rparr>"


definition scope :: obj where
  "scope = [(''id'', PInt 1), (''asset_tag'', PStr ''EQ-1''), (''name'', PStr ''Scope''),
            (''category'', PStr ''Lab''), (''status'', PStr ''Available''),
            (''location'', PStr ''Room 2'')]"

definition lab_db :: database where
  "lab_db = \<lparr>equipment_tbl = [scope], movement_tbl = [], audit_tbl = []\<rparr>"

definition researcher :: user where
  "researcher = \<lparr>uid = 7, role = ''Researcher''\<rparr>"

definition reader :: user where
  "reader = \<lparr>uid = 8, role = ''Read-only''\<rparr>"

definition admin :: user where
  "admin = \<lparr>uid = 1, role = ''Admin''\<rparr>"

section \<open>Properties of the bulk import\<close>

lemma row_outcomes_Nil [simp]: "row_outcomes L tbl cols n [] = []"
  by (simp add: row_outcomes_def)

lemma row_outcomes_Cons:
  "row_outcomes L tbl cols n (r # rs) =
     import_row L tbl cols n r # row_outcomes L tbl cols (Suc n) rs"
  by (simp add: row_outcomes_def upt_conv_Cons del: upt_Suc)

lemma length_row_outcomes [simp]: "length (row_outcomes L tbl cols n rs) = length rs"
  by (simp add: row_outcomes_def)

lemma nth_row_outcomes:
  "i < length rs \<Longrightarrow> row_outcomes L tbl cols n rs ! i = import_row L tbl cols (n + i) (rs ! i)"
  by (simp add: row_outcomes_def)

text \<open>The row loop handles every row on its own: what it adds to the results and to the
  list of drafts is the outcome of each row, in order.\<close>

lemma import_rows_outcomes:
  "import_rows L tbl cols n rs (res, eqs) =
     (res\<lparr>success := success res + length (drafts (row_outcomes L tbl cols n rs)),
          errors := errors res @ messages (row_outcomes L tbl cols n rs),
          total := total res + length rs\<rparr>,
      eqs @ drafts (row_outcomes L tbl cols n rs))"
proof (induction rs arbitrary: n res eqs)
  case Nil
  show ?case by simp
next
  case (Cons r rs)
  show ?case
  proof (cases "import_row L tbl cols n r")
    case (Inl m)
    then show ?thesis
      by (simp add: Cons.IH row_outcomes_Cons Let_def)
  next
    case (Inr e)
    then show ?thesis
      by (simp add: Cons.IH row_outcomes_Cons Let_def)
  qed
qed

lemma validate_dataframe_outcomes:
  assumes "set REQUIRED_FIELDS \<subseteq> set (columns df)"
  shows "validate_dataframe L tbl df =
    (\<lparr>success = length (drafts (row_outcomes L tbl (columns df) 2
                                   (map (map replace_missing) (rows df)))),
      errors = messages (row_outcomes L tbl (columns df) 2
                           (map (map replace_missing) (rows df))),
      warnings = [], total = length (rows df)\<rparr>,
     drafts (row_outcomes L tbl (columns df) 2 (map (map replace_missing) (rows df))))"
proof -
  have "filter (\<lambda>field. field \<notin> set (columns df)) REQUIRED_FIELDS = []"
    using assms by (auto simp: filter_empty_conv)
  then show ?thesis
    by (simp add: validate_dataframe_def import_rows_outcomes)
qed

text \<open>
  C9.  A dry run writes nothing: for every table, actor and store fault the database
  returned is the database given (equipment, movement events and audit events alike),
  and the batch result is that of the validation pass.
\<close>

theorem dry_run_writes_nothing:
  "import_from_dataframe L fault db df actor_id True =
     (fst (validate_dataframe L (equipment_tbl db) df), db)"
  by (simp add: import_from_dataframe_def split: prod.splits)

theorem dry_run_writes_nothing_witness:
  "import_from_dataframe lib0 None empty_db
     \<lparr>columns = [''asset_tag'', ''name'', ''category''],
      rows = [[PStr ''EQ-1'', PStr ''Scope'', PStr ''Lab''], [PNone, PStr ''Probe'', PStr ''Lab'']]\<rparr>
     7 True =
   (\<lparr>success = 1, errors = [''Row 3: asset_tag is required.''], warnings = [], total = 2\<rparr>,
    empty_db)"
proof -
  have "fst (validate_dataframe lib0 (equipment_tbl empty_db)
     \<lparr>columns = [''asset_tag'', ''name'', ''category''],
      rows = [[PStr ''EQ-1'', PStr ''Scope'', PStr ''Lab''], [PNone, PStr ''Probe'', PStr ''Lab'']]\<rparr>)
    = \<lparr>success = 1, errors = [''Row 3: asset_tag is required.''], warnings = [], total = 2\<rparr>"
    by code_simp
  then show ?thesis
    by (simp only: dry_run_writes_nothing)
qed

lemma try_formats_find:
  "try_formats fmts s =
     (case find (\<lambda>fmt. \<not> isl (strptime s fmt)) fmts of
        None \<Rightarrow> Inl (BulkImportError (''Invalid date format: '' @ s))
      | Some fmt \<Rightarrow> Inr (PDate (date_of (projr (strptime s fmt)))))"
  by (induction fmts) (auto split: sum.splits)

lemma strip_nonempty: "strip s \<noteq> [] \<Longrightarrow> s \<noteq> []"
  by (auto simp: strip_def)

lemma first_format_example: "strptime ''2024-01-31'' ''%Y-%m-%d'' =
     Inr \<lparr>year = 2024, month = 1, day = 31, hour = 0, minute = 0, second = 0\<rparr>"
  by code_simp
lemma second_example_fails_first: "isl (strptime ''01/31/2024'' ''%Y-%m-%d'')"
  by code_simp
lemma second_format_example: "strptime ''01/31/2024'' ''%m/%d/%Y'' =
     Inr \<lparr>year = 2024, month = 1, day = 31, hour = 0, minute = 0, second = 0\<rparr>"
  by code_simp
lemma third_example_fails_first: "isl (strptime ''31/01/2024'' ''%Y-%m-%d'')"
  by code_simp
lemma third_example_fails_second: "isl (strptime ''31/01/2024'' ''%m/%d/%Y'')"
  by code_simp
lemma third_format_example: "strptime ''31/01/2024'' ''%d/%m/%Y'' =
     Inr \<lparr>year = 2024, month = 1, day = 31, hour = 0, minute = 0, second = 0\<rparr>"
  by code_simp
lemma strip_first_example: "strip ''2024-01-31'' = ''2024-01-31''"
  by code_simp
lemma strip_second_example: "strip ''01/31/2024'' = ''01/31/2024''"
  by code_simp
lemma strip_third_example: "strip ''31/01/2024'' = ''31/01/2024''"
  by code_simp

text \<open>
  C6.  Date parsing tries the formats \<open>%Y-%m-%d\<close>, \<open>%m/%d/%Y\<close>, \<open>%d/%m/%Y\<close>,
  \<open>%Y-%m-%d %H:%M:%S\<close> in this order on the stripped text: the result is the date of the
  first format that parses, and the error "Invalid date format" when none does.  The text
  2024-01-31 parses by the first format, 01/31/2024 fails the first and parses by the
  second, 31/01/2024 fails the first two and parses by the third; each gives 31 January
  2024.
\<close>

theorem parse_date_format_order:
  "(strip s \<noteq> [] \<longrightarrow>
      parse_date L (PStr s) =
        (case find (\<lambda>fmt. \<not> isl (strptime (strip s) fmt))
                [''%Y-%m-%d'', ''%m/%d/%Y'', ''%d/%m/%Y'', ''%Y-%m-%d %H:%M:%S''] of
           None \<Rightarrow> Inl (BulkImportError (''Invalid date format: '' @ strip s))
         | Some fmt \<Rightarrow> Inr (PDate (date_of (projr (strptime (strip s) fmt))))))
   \<and> parse_date L (PStr ''2024-01-31'') = Inr (PDate \<lparr>year = 2024, month = 1, day = 31\<rparr>)
   \<and> \<not> isl (strptime ''2024-01-31'' ''%Y-%m-%d'')
   \<and> parse_date L (PStr ''01/31/2024'') = Inr (PDate \<lparr>year = 2024, month = 1, day = 31\<rparr>)
   \<and> isl (strptime ''01/31/2024'' ''%Y-%m-%d'')
   \<and> \<not> isl (strptime ''01/31/2024'' ''%m/%d/%Y'')
   \<and> parse_date L (PStr ''31/01/2024'') = Inr (PDate \<lparr>year = 2024, month = 1, day = 31\<rparr>)
   \<and> isl (strptime ''31/01/2024'' ''%Y-%m-%d'')
   \<and> isl (strptime ''31/01/2024'' ''%m/%d/%Y'')
   \<and> \<not> isl (strptime ''31/01/2024'' ''%d/%m/%Y'')"
proof -
  have gen: "parse_date L (PStr t) =
        (case find (\<lambda>fmt. \<not> isl (strptime (strip t) fmt))
                [''%Y-%m-%d'', ''%m/%d/%Y'', ''%d/%m/%Y'', ''%Y-%m-%d %H:%M:%S''] of
           None \<Rightarrow> Inl (BulkImportError (''Invalid date format: '' @ strip t))
         | Some fmt \<Rightarrow> Inr (PDate (date_of (projr (strptime (strip t) fmt)))))"
    if "strip t \<noteq> []" for t
    using that strip_nonempty [OF that]
    by (simp add: parse_date_def try_formats_find date_formats_def del: find.simps)
  have p1: "parse_date L (PStr ''2024-01-31'') = Inr (PDate \<lparr>year = 2024, month = 1, day = 31\<rparr>)"
    by (subst gen) (simp_all add: strip_first_example first_format_example date_of_def)
  have p2: "parse_date L (PStr ''01/31/2024'') = Inr (PDate \<lparr>year = 2024, month = 1, day = 31\<rparr>)"
    by (subst gen) (simp_all add: strip_second_example second_example_fails_first second_format_example date_of_def)
  have p3: "parse_date L (PStr ''31/01/2024'') = Inr (PDate \<lparr>year = 2024, month = 1, day = 31\<rparr>)"
    by (subst gen) (simp_all add: strip_third_example third_example_fails_first third_example_fails_second third_format_example date_of_def)
  show ?thesis
    using gen [of s] p1 p2 p3 first_format_example second_example_fails_first
      second_format_example third_example_fails_first third_example_fails_second
      third_format_example
    by simp
qed

theorem parse_date_format_order_witness:
  "strip ''2024-02-29 08:30:00'' \<noteq> []
   \<and> parse_date lib0 (PStr ''2024-02-29 08:30:00'') = Inr (PDate \<lparr>year = 2024, month = 2, day = 29\<rparr>)
   \<and> parse_date lib0 (PStr ''2024/01/31'') = Inl (BulkImportError ''Invalid date format: 2024/01/31'')"
proof -
  have s1: "strip ''2024-02-29 08:30:00'' = ''2024-02-29 08:30:00''" by code_simp
  have s2: "strip ''2024/01/31'' = ''2024/01/31''" by code_simp
  have f1: "find (\<lambda>fmt. \<not> isl (strptime ''2024-02-29 08:30:00'' fmt))
                [''%Y-%m-%d'', ''%m/%d/%Y'', ''%d/%m/%Y'', ''%Y-%m-%d %H:%M:%S'']
            = Some ''%Y-%m-%d %H:%M:%S''" by code_simp
  have v1: "strptime ''2024-02-29 08:30:00'' ''%Y-%m-%d %H:%M:%S'' =
     Inr \<lparr>year = 2024, month = 2, day = 29, hour = 8, minute = 30, second = 0\<rparr>" by code_simp
  have f2: "find (\<lambda>fmt. \<not> isl (strptime ''2024/01/31'' fmt))
                [''%Y-%m-%d'', ''%m/%d/%Y'', ''%d/%m/%Y'', ''%Y-%m-%d %H:%M:%S'']
            = None" by code_simp
  show ?thesis
    using parse_date_format_order [of "''2024-02-29 08:30:00''" lib0]
      parse_date_format_order [of "''2024/01/31''" lib0]
    by (simp add: s1 s2 f1 f2 v1 date_of_def del: find.simps)
qed
lemma flush_fault:
  "fault = Some j \<Longrightarrow> k \<le> j \<Longrightarrow> j < k + length ws \<Longrightarrow> isl (flush key fault k ws db)"
proof (induction ws arbitrary: k db)
  case Nil
  then show ?case by simp
next
  case (Cons w ws)
  show ?case
  proof (cases "j = k")
    case True
    with Cons.prems show ?thesis by simp
  next
    case False
    with Cons.prems have "Suc k \<le> j" "j < Suc k + length ws" by auto
    from Cons.IH [OF Cons.prems(1) this] Cons.prems(1) False show ?thesis
      by (auto split: sum.splits)
  qed
qed

text \<open>
  C2.  When the commit of a bulk import fails at any insert of the batch (the store fails
  at one of the inserts, or an insert is refused), the call returns the database as it
  was before: no row of the batch is stored, rows that validated included, and the
  failure is reported as a "Database error" in the batch result.
\<close>

theorem commit_failure_leaves_no_row:
  assumes "validate_dataframe L (equipment_tbl db) df = (res, eqs)"
    and "(\<exists>k. fault = Some k \<and> k < length eqs)
         \<or> isl (session_commit ''asset_tag'' fault 0 (map Add_equipment eqs) db)"
  shows "\<exists>x. import_from_dataframe L fault db df actor_id False =
           (res\<lparr>errors := errors res @ [''Database error: '' @ str_exc x]\<rparr>, db)"
proof -
  have fails: "isl (session_commit ''asset_tag'' fault 0 (map Add_equipment eqs) db)"
    using assms(2) flush_fault [of fault _ 0 "map Add_equipment eqs"]
    by (auto simp: session_commit_def)
  then obtain x where x: "session_commit ''asset_tag'' fault 0 (map Add_equipment eqs) db = Inl x"
    by (cases "session_commit ''asset_tag'' fault 0 (map Add_equipment eqs) db") auto
  then have "eqs \<noteq> []"
    by (auto simp: session_commit_def)
  with x assms(1) show ?thesis
    by (intro exI [of _ x]) (simp add: import_from_dataframe_def)
qed

theorem commit_failure_leaves_no_row_witness:
  "snd (import_from_dataframe lib0 (Some 1) empty_db
     \<lparr>columns = [''asset_tag'', ''name'', ''category''],
      rows = [[PStr ''EQ-1'', PStr ''Scope'', PStr ''Lab''],
              [PStr ''EQ-2'', PStr ''Probe'', PStr ''Lab''],
              [PStr ''EQ-3'', PStr ''Meter'', PStr ''Lab'']]\<rparr> 7 False) = empty_db
   \<and> length (snd (validate_dataframe lib0 (equipment_tbl empty_db)
     \<lparr>columns = [''asset_tag'', ''name'', ''category''],
      rows = [[PStr ''EQ-1'', PStr ''Scope'', PStr ''Lab''],
              [PStr ''EQ-2'', PStr ''Probe'', PStr ''Lab''],
              [PStr ''EQ-3'', PStr ''Meter'', PStr ''Lab'']]\<rparr>)) = 3"
proof -
  let ?df = "\<lparr>columns = [''asset_tag'', ''name'', ''category''],
      rows = [[PStr ''EQ-1'', PStr ''Scope'', PStr ''Lab''],
              [PStr ''EQ-2'', PStr ''Probe'', PStr ''Lab''],
              [PStr ''EQ-3'', PStr ''Meter'', PStr ''Lab'']]\<rparr>"
  let ?v = "validate_dataframe lib0 (equipment_tbl empty_db) ?df"
  have len: "length (snd ?v) = 3" by code_simp
  have "\<exists>x. import_from_dataframe lib0 (Some 1) empty_db ?df 7 False =
           ((fst ?v)\<lparr>errors := errors (fst ?v) @ [''Database error: '' @ str_exc x]\<rparr>, empty_db)"
    by (rule commit_failure_leaves_no_row [where eqs = "snd ?v"]) (simp_all add: len)
  then show ?thesis using len by auto
qed


lemma import_row_stored_tag:
  assumes "row_getattr cols r ''asset_tag'' PNone = PStr t" and "strip t \<noteq> []"
    and "query_first tbl ''asset_tag'' (PStr (strip t)) \<noteq> None"
  shows "import_row L tbl cols n r =
     Inl (''Row '' @ str_nat n @ '': Asset tag '' @ [CHR 0x27] @ strip t @ [CHR 0x27]
          @ '' already exists'')"
  using assms by (simp add: import_row_def Let_def)

lemma asset_row_outcomes_Nil [simp]: "asset_row_outcomes L tbl cols n [] = []"
  by (simp add: asset_row_outcomes_def)

lemma asset_row_outcomes_Cons:
  "asset_row_outcomes L tbl cols n (r # rs) =
     import_asset_row L tbl cols n r # asset_row_outcomes L tbl cols (Suc n) rs"
  by (simp add: asset_row_outcomes_def upt_conv_Cons del: upt_Suc)

lemma nth_asset_row_outcomes:
  "i < length rs \<Longrightarrow>
   asset_row_outcomes L tbl cols n rs ! i = import_asset_row L tbl cols (n + i) (rs ! i)"
  by (simp add: asset_row_outcomes_def)

lemma import_asset_rows_outcomes:
  "import_asset_rows L tbl cols n rs (res, as) =
     (res\<lparr>success := success res + length (drafts (asset_row_outcomes L tbl cols n rs)),
          errors := errors res @ messages (asset_row_outcomes L tbl cols n rs),
          total := total res + length rs\<rparr>,
      as @ drafts (asset_row_outcomes L tbl cols n rs))"
proof (induction rs arbitrary: n res as)
  case Nil
  show ?case by simp
next
  case (Cons r rs)
  show ?case
    by (cases "import_asset_row L tbl cols n r")
       (simp_all add: Cons.IH asset_row_outcomes_Cons Let_def)
qed

lemma validate_assets_outcomes:
  assumes "set ASSET_REQUIRED_FIELDS \<subseteq> set (columns df)"
  shows "validate_assets L tbl df =
    (\<lparr>success = length (drafts (asset_row_outcomes L tbl (columns df) 2
                                   (map (map replace_missing) (rows df)))),
      errors = messages (asset_row_outcomes L tbl (columns df) 2
                           (map (map replace_missing) (rows df))),
      warnings = [], total = length (rows df)\<rparr>,
     drafts (asset_row_outcomes L tbl (columns df) 2 (map (map replace_missing) (rows df))))"
proof -
  have "filter (\<lambda>field. field \<notin> set (columns df)) ASSET_REQUIRED_FIELDS = []"
    using assms by (auto simp: filter_empty_conv)
  then show ?thesis
    by (simp add: validate_assets_def import_asset_rows_outcomes)
qed

lemma import_asset_row_stored_serial:
  assumes "row_getattr cols r ''serial_number'' PNone = PStr t" and "strip t \<noteq> []"
    and "query_first tbl ''serial_number'' (PStr (strip t)) \<noteq> None"
  shows "import_asset_row L tbl cols n r =
     Inl (''Row '' @ str_nat n @ '': Serial number '' @ [CHR 0x27] @ strip t @ [CHR 0x27]
          @ '' already exists'')"
  using assms by (simp add: import_asset_row_def Let_def)

text \<open>
  C3, as the code has it.  During validation a row's key (the asset tag of an equipment
  row, the serial number of an asset row) is checked against the stored entities only.
  The result of the validation pass is made of the outcomes of the rows, each row taken on
  its own against the store (so a row is not compared with the rows accepted before it,
  and a rejected row does not stop the rows after it); a row whose stripped key is stored
  is rejected with the message "Asset tag '...' already exists", respectively
  "Serial number '...' already exists".
\<close>

theorem uniqueness_checked_against_store_only:
  "(set REQUIRED_FIELDS \<subseteq> set (columns df) \<longrightarrow>
      validate_dataframe L tbl df =
        (\<lparr>success = length (drafts (row_outcomes L tbl (columns df) 2
                                       (map (map replace_missing) (rows df)))),
          errors = messages (row_outcomes L tbl (columns df) 2
                               (map (map replace_missing) (rows df))),
          warnings = [], total = length (rows df)\<rparr>,
         drafts (row_outcomes L tbl (columns df) 2 (map (map replace_missing) (rows df)))))
   \<and> (i < length rs \<longrightarrow>
        row_outcomes L tbl cols 2 rs ! i = import_row L tbl cols (2 + i) (rs ! i))
   \<and> (row_getattr cols r ''asset_tag'' PNone = PStr t \<and> strip t \<noteq> [] \<and>
        query_first tbl ''asset_tag'' (PStr (strip t)) \<noteq> None \<longrightarrow>
        import_row L tbl cols n r =
          Inl (''Row '' @ str_nat n @ '': Asset tag '' @ [CHR 0x27] @ strip t @ [CHR 0x27]
               @ '' already exists''))
   \<and> (set ASSET_REQUIRED_FIELDS \<subseteq> set (columns df) \<longrightarrow>
      validate_assets L tbl df =
        (\<lparr>success = length (drafts (asset_row_outcomes L tbl (columns df) 2
                                       (map (map replace_missing) (rows df)))),
          errors = messages (asset_row_outcomes L tbl (columns df) 2
                               (map (map replace_missing) (rows df))),
          warnings = [], total = length (rows df)\<rparr>,
         drafts (asset_row_outcomes L tbl (columns df) 2
                   (map (map replace_missing) (rows df)))))
   \<and> (i < length rs \<longrightarrow>
        asset_row_outcomes L tbl cols 2 rs ! i = import_asset_row L tbl cols (2 + i) (rs ! i))
   \<and> (row_getattr cols r ''serial_number'' PNone = PStr t \<and> strip t \<noteq> [] \<and>
        query_first tbl ''serial_number'' (PStr (strip t)) \<noteq> None \<longrightarrow>
        import_asset_row L tbl cols n r =
          Inl (''Row '' @ str_nat n @ '': Serial number '' @ [CHR 0x27] @ strip t @ [CHR 0x27]
               @ '' already exists''))"
  using validate_dataframe_outcomes [of df L tbl] nth_row_outcomes [of i rs L tbl cols 2]
    import_row_stored_tag [of cols r t tbl L n]
    validate_assets_outcomes [of df L tbl] nth_asset_row_outcomes [of i rs L tbl cols 2]
    import_asset_row_stored_serial [of cols r t tbl L n]
  by blast

theorem uniqueness_checked_against_store_only_witness:
  "validate_dataframe lib0
     [[(''asset_tag'', PStr ''EQ-1''), (''name'', PStr ''Scope''), (''category'', PStr ''Lab''),
       (''id'', PInt 1)]]
     \<lparr>columns = [''asset_tag'', ''name'', ''category''],
      rows = [[PStr ''EQ-1 '', PStr ''Probe'', PStr ''Lab''],
              [PStr ''EQ-2'', PStr ''Meter'', PStr ''Lab''],
              [PStr ''EQ-2'', PStr ''Clamp'', PStr ''Lab'']]\<rparr> =
   (\<lparr>success = 2, errors = [''Row 2: Asset tag 'EQ-1' already exists''], warnings = [],
     total = 3\<rparr>,
    drafts (row_outcomes lib0
      [[(''asset_tag'', PStr ''EQ-1''), (''name'', PStr ''Scope''), (''category'', PStr ''Lab''),
        (''id'', PInt 1)]]
      [''asset_tag'', ''name'', ''category''] 2
      [[PStr ''EQ-1 '', PStr ''Probe'', PStr ''Lab''],
       [PStr ''EQ-2'', PStr ''Meter'', PStr ''Lab''],
       [PStr ''EQ-2'', PStr ''Clamp'', PStr ''Lab'']]))"
proof -
  let ?tbl = "[[(''asset_tag'', PStr ''EQ-1''), (''name'', PStr ''Scope''),
                (''category'', PStr ''Lab''), (''id'', PInt 1)]]"
  let ?df = "\<lparr>columns = [''asset_tag'', ''name'', ''category''],
      rows = [[PStr ''EQ-1 '', PStr ''Probe'', PStr ''Lab''],
              [PStr ''EQ-2'', PStr ''Meter'', PStr ''Lab''],
              [PStr ''EQ-2'', PStr ''Clamp'', PStr ''Lab'']]\<rparr>"
  have cols: "set REQUIRED_FIELDS \<subseteq> set (columns ?df)"
    by (simp add: REQUIRED_FIELDS_def)
  have rm: "map (map replace_missing) (rows ?df) = rows ?df"
    by (simp add: replace_missing_def)
  have n: "length (drafts (row_outcomes lib0 ?tbl (columns ?df) 2 (rows ?df))) = 2"
    by code_simp
  have m: "messages (row_outcomes lib0 ?tbl (columns ?df) 2 (rows ?df))
             = [''Row 2: Asset tag 'EQ-1' already exists'']"
    by code_simp
  from uniqueness_checked_against_store_only [of ?df lib0 ?tbl] cols
  have "validate_dataframe lib0 ?tbl ?df =
        (\<lparr>success = length (drafts (row_outcomes lib0 ?tbl (columns ?df) 2
                                       (map (map replace_missing) (rows ?df)))),
          errors = messages (row_outcomes lib0 ?tbl (columns ?df) 2
                               (map (map replace_missing) (rows ?df))),
          warnings = [], total = length (rows ?df)\<rparr>,
         drafts (row_outcomes lib0 ?tbl (columns ?df) 2 (map (map replace_missing) (rows ?df))))"
    by blast
  then show ?thesis
    unfolding rm n m by simp
qed


text \<open>Two rows of one batch with the same asset tag, against an empty store: both are
  accepted by the validation pass.  So are two asset rows with the same serial number.\<close>

theorem in_batch_duplicate_counterexample:
  "import_from_dataframe lib0 None empty_db
     \<lparr>columns = [''asset_tag'', ''name'', ''category''],
      rows = [[PStr ''EQ-1'', PStr ''Scope'', PStr ''Lab''],
              [PStr ''EQ-1'', PStr ''Probe'', PStr ''Lab'']]\<rparr> 7 True =
   (\<lparr>success = 2, errors = [], warnings = [], total = 2\<rparr>, empty_db)
   \<and> fst (validate_assets lib0 []
     \<lparr>columns = [''invoice_no'', ''serial_number'', ''description'', ''owner_email''],
      rows = [[PStr ''INV-1'', PStr ''SN-1'', PStr ''Scope'', PStr ''a@example.org''],
              [PStr ''INV-2'', PStr ''SN-1'', PStr ''Probe'', PStr ''b@example.org'']]\<rparr>) =
     \<lparr>success = 2, errors = [], warnings = [], total = 2\<rparr>"
  by code_simp


text \<open>
  C7, at a failing input.  An equipment row with an asset tag and a category whose name
  cell is empty is accepted: its name becomes the text \<open>None\<close>, and no error is reported.
  The asset import tests each required field after \<open>str(...).strip()\<close>: it rejects a row
  whose description is blank text, and accepts a row whose invoice number cell is empty,
  with the invoice number \<open>None\<close>.
\<close>

theorem missing_name_accepted:
  "fst (validate_dataframe lib0 []
     \<lparr>columns = [''asset_tag'', ''name'', ''category''],
      rows = [[PStr ''EQ-1'', PNone, PStr ''Lab'']]\<rparr>) =
     \<lparr>success = 1, errors = [], warnings = [], total = 1\<rparr>
   \<and> map (\<lambda>e. getattr e ''name'')
        (snd (validate_dataframe lib0 []
           \<lparr>columns = [''asset_tag'', ''name'', ''category''],
            rows = [[PStr ''EQ-1'', PNone, PStr ''Lab'']]\<rparr>)) = [PStr ''None'']
   \<and> fst (validate_assets lib0 []
     \<lparr>columns = [''invoice_no'', ''serial_number'', ''description'', ''owner_email''],
      rows = [[PStr ''INV-1'', PStr ''SN-1'', PStr '' '', PStr ''a@example.org''],
              [PNone, PStr ''SN-2'', PStr ''Probe'', PStr ''b@example.org'']]\<rparr>) =
     \<lparr>success = 1, errors = [''Row 2: description is required.''], warnings = [], total = 2\<rparr>
   \<and> map (\<lambda>e. getattr e ''invoice_no'')
        (snd (validate_assets lib0 []
           \<lparr>columns = [''invoice_no'', ''serial_number'', ''description'', ''owner_email''],
            rows = [[PStr ''INV-1'', PStr ''SN-1'', PStr '' '', PStr ''a@example.org''],
                    [PNone, PStr ''SN-2'', PStr ''Probe'', PStr ''b@example.org'']]\<rparr>))
       = [PStr ''None'']"
  by code_simp

lemma set_optional_fails:
  "field \<in> set fs \<Longrightarrow> isl (convert_field L field (row field)) \<Longrightarrow>
   isl (set_optional L fs row e)"
  by (induction fs arbitrary: e) (auto split: sum.splits)

lemma getattr_setattr:
  "getattr (setattr k v e) k' = (if k' = k then v else getattr e k')"
  by (simp add: getattr_def setattr_def update_conv')

lemma set_optional_frame:
  "set_optional L fs row e = Inr e' \<Longrightarrow> k \<notin> set fs \<Longrightarrow> getattr e' k = getattr e k"
  by (induction fs arbitrary: e) (auto simp: getattr_setattr split: sum.splits)

lemma mem_dropWhile: "c \<in> set s \<Longrightarrow> \<not> P c \<Longrightarrow> c \<in> set (dropWhile P s)"
  by (induction s) auto

lemma mem_strip: "c \<in> set s \<Longrightarrow> \<not> is_space c \<Longrightarrow> c \<in> set (strip s)"
  by (simp add: strip_def mem_dropWhile)

lemma int_digits_chars:
  "int_digits acc cs = Some n \<Longrightarrow> c \<in> set cs \<Longrightarrow> is_digit c \<or> c = CHR ''_''"
  by (induction acc cs rule: int_digits.induct) (auto split: if_splits)

lemma int_literal_chars:
  "int_literal cs = Some n \<Longrightarrow> c \<in> set cs \<Longrightarrow> is_digit c \<or> c = CHR ''_''"
  by (auto simp: int_literal_def split: list.splits if_splits dest: int_digits_chars)

lemma int_of_str_bad_char:
  assumes "c \<in> set s" "\<not> is_digit c" "\<not> is_space c" "c \<notin> set ''+-_''"
  shows "isl (int_of_str s)"
proof -
  have c: "c \<in> set (strip s)" using assms mem_strip by simp
  then obtain x xs where t: "strip s = x # xs" by (cases "strip s") auto
  have "int_literal (strip s) = None"
    using int_literal_chars [of "strip s" _ c] c assms by (cases "int_literal (strip s)") auto
  moreover have "int_literal xs = None" if "x = CHR ''-'' \<or> x = CHR ''+''"
  proof -
    from that c t assms have "c \<in> set xs" by auto
    then show ?thesis
      using int_literal_chars [of xs _ c] assms by (cases "int_literal xs") auto
  qed
  ultimately show ?thesis
    by (auto simp: int_of_str_def t Let_def)
qed

lemma import_row_accepted:
  "import_row L tbl cols n r = Inr e \<Longrightarrow>
   \<exists>e0. set_optional L OPTIONAL_FIELDS (\<lambda>f. row_getattr cols r f PNone) e0 = Inr e"
  by (auto simp: import_row_def Let_def split: if_splits sum.splits)

lemma py_in_missing:
  "py_in v [Val PNone, Val (PStr []), PdNA, NaN] =
     (if v = PNone \<or> v = PStr [] then Inr True
      else Inl (TypeError ''boolean value of NA is ambiguous''))"
  by auto

lemma py_in_blank:
  "py_in v [Val (PStr []), Val (PStr ''NA''), PdNA, NaN] =
     (if v = PStr [] \<or> v = PStr ''NA'' then Inr True
      else if v = PNone then Inr False
      else Inl (TypeError ''boolean value of NA is ambiguous''))"
  by auto

lemma convert_pin_count_present:
  "v \<noteq> PNone \<Longrightarrow> v \<noteq> PStr [] \<Longrightarrow>
   convert_field L ''pin_count'' v = Inl (TypeError ''boolean value of NA is ambiguous'')"
  by (simp add: convert_field_def py_in_missing del: py_in.simps)

lemma convert_field_None: "convert_field L field v = Inr v' \<Longrightarrow> v' = PNone"
  unfolding convert_field_def py_in_missing py_in_blank
  by (auto split: if_splits sum.splits pyval.splits)

lemma set_optional_None:
  "set_optional L fs row e = Inr e' \<Longrightarrow> field \<in> set fs \<Longrightarrow> getattr e' field = PNone"
proof (induction fs arbitrary: e)
  case Nil
  then show ?case by simp
next
  case (Cons g fs)
  from Cons.prems(1) obtain v where
    c: "convert_field L g (row g) = Inr v"
    and s: "set_optional L fs row (setattr g v e) = Inr e'"
    by (auto split: sum.splits)
  show ?case
  proof (cases "field \<in> set fs")
    case True
    from Cons.IH [OF s True] show ?thesis .
  next
    case False
    with Cons.prems(2) have "field = g" by simp
    moreover have "getattr e' field = getattr (setattr g v e) field"
      using s False by (rule set_optional_frame)
    ultimately show ?thesis
      using convert_field_None [OF c] by (simp add: getattr_setattr)
  qed
qed

lemma import_row_optional_None:
  assumes "import_row L tbl cols n r = Inr e" and "field \<in> set OPTIONAL_FIELDS"
  shows "getattr e field = PNone"
proof -
  from import_row_accepted [OF assms(1)] obtain e0 where
    "set_optional L OPTIONAL_FIELDS (\<lambda>f. row_getattr cols r f PNone) e0 = Inr e" by blast
  from set_optional_None [OF this assms(2)] show ?thesis .
qed

lemma import_row_present_pin_count:
  assumes "row_getattr cols r ''pin_count'' PNone = v" "v \<noteq> PNone" "v \<noteq> PStr []"
  shows "isl (import_row L tbl cols n r)"
proof -
  have "isl (convert_field L ''pin_count'' (row_getattr cols r ''pin_count'' PNone))"
    using assms convert_pin_count_present [of v L] by simp
  moreover have "''pin_count'' \<in> set OPTIONAL_FIELDS"
    by (simp add: OPTIONAL_FIELDS_def)
  ultimately have f: "isl (set_optional L OPTIONAL_FIELDS (\<lambda>f. row_getattr cols r f PNone) e)"
    for e
    using set_optional_fails [of "''pin_count''" OPTIONAL_FIELDS L "\<lambda>f. row_getattr cols r f PNone"]
    by simp
  show ?thesis
  proof (cases "import_row L tbl cols n r")
    case (Inl m)
    then show ?thesis by simp
  next
    case (Inr e)
    from import_row_accepted [OF Inr] obtain e0 where
      "set_optional L OPTIONAL_FIELDS (\<lambda>f. row_getattr cols r f PNone) e0 = Inr e" by blast
    with f [of e0] show ?thesis by simp
  qed
qed

text \<open>
  C8.  The cell is the one the row loop reads, after the import has replaced the markers
  of a missing value (NaN, \<open>pd.NA\<close>, \<open>"NA"\<close>, \<open>""\<close>) by \<open>None\<close>.  A row whose \<open>pin_count\<close> cell
  is a non-empty text that \<open>int()\<close> does not accept is rejected with an error; every text
  with a character other than a digit, a sign, an underscore or whitespace (a letter, a
  decimal point) is such a text.  A row whose \<open>pin_count\<close> cell is a floating-point number
  with a fractional part is rejected with an error.  No accepted row carries a pin count:
  nothing is truncated or stored.  The error is raised by the sentinel test in front of
  \<open>int()\<close>, which rejects every cell that is present, a whole number too.
\<close>

theorem pin_count_rejected:
  "(row_getattr cols r ''pin_count'' PNone = PStr s \<and> s \<noteq> [] \<and> isl (int_of_str s) \<longrightarrow>
      isl (import_row L tbl cols n r))
   \<and> ((\<exists>c \<in> set s. \<not> is_digit c \<and> \<not> is_space c \<and> c \<notin> set ''+-_'') \<longrightarrow> isl (int_of_str s))
   \<and> (row_getattr cols r ''pin_count'' PNone = PFloat q \<and> of_int (trunc q) \<noteq> q \<longrightarrow>
      isl (import_row L tbl cols n r))
   \<and> (import_row L tbl cols n r = Inr e \<longrightarrow> getattr e ''pin_count'' = PNone)
   \<and> (row_getattr cols r ''pin_count'' PNone = v \<and> v \<noteq> PNone \<and> v \<noteq> PStr [] \<longrightarrow>
      isl (import_row L tbl cols n r))"
proof -
  have "''pin_count'' \<in> set OPTIONAL_FIELDS"
    by (simp add: OPTIONAL_FIELDS_def)
  then have "getattr e ''pin_count'' = PNone" if "import_row L tbl cols n r = Inr e"
    using import_row_optional_None [OF that] by blast
  then show ?thesis
    using import_row_present_pin_count [of cols r "PStr s" L tbl n]
      import_row_present_pin_count [of cols r "PFloat q" L tbl n]
      import_row_present_pin_count [of cols r v L tbl n]
      int_of_str_bad_char [of _ s]
    by auto
qed

theorem pin_count_rejected_witness:
  "isl (import_row lib0 [] [''asset_tag'', ''name'', ''category'', ''pin_count''] 2
          [PStr ''EQ-1'', PStr ''Scope'', PStr ''Lab'', PStr ''2.5''])
   \<and> isl (int_of_str ''2.5'')
   \<and> isl (import_row lib0 [] [''asset_tag'', ''name'', ''category'', ''pin_count''] 2
          [PStr ''EQ-1'', PStr ''Scope'', PStr ''Lab'', PFloat (5 / 2)])
   \<and> \<not> isl (import_row lib0 [] [''asset_tag'', ''name'', ''category'', ''pin_count''] 2
          [PStr ''EQ-1'', PStr ''Scope'', PStr ''Lab'', PNone])
   \<and> getattr (projr (import_row lib0 [] [''asset_tag'', ''name'', ''category'', ''pin_count''] 2
          [PStr ''EQ-1'', PStr ''Scope'', PStr ''Lab'', PNone])) ''pin_count'' = PNone
   \<and> isl (import_row lib0 [] [''asset_tag'', ''name'', ''category'', ''pin_count''] 2
          [PStr ''EQ-1'', PStr ''Scope'', PStr ''Lab'', PInt 48])"
proof -
  let ?cols = "[''asset_tag'', ''name'', ''category'', ''pin_count'']"
  let ?r = "\<lambda>v. [PStr ''EQ-1'', PStr ''Scope'', PStr ''Lab'', v]"
  have g: "row_getattr ?cols (?r v) ''pin_count'' PNone = v" for v
    by (simp add: row_getattr_def)
  have b: "\<exists>c \<in> set ''2.5''. \<not> is_digit c \<and> \<not> is_space c \<and> c \<notin> set ''+-_''"
    by (simp add: is_digit_def digits_def is_space_def)
  have t: "of_int (trunc (5 / 2)) \<noteq> (5 / 2 :: rat)" by code_simp
  have ne: "''2.5'' \<noteq> []" "PInt 48 \<noteq> PNone" "PInt 48 \<noteq> PStr []" by simp_all
  have i: "isl (int_of_str ''2.5'')"
    using pin_count_rejected [where s = "''2.5''"] b by blast
  have a: "isl (import_row lib0 [] ?cols 2 (?r (PStr ''2.5'')))"
    using pin_count_rejected [where cols = ?cols and r = "?r (PStr ''2.5'')" and s = "''2.5''"
        and L = lib0 and tbl = "[]" and n = 2] g ne i
    by blast
  have f: "isl (import_row lib0 [] ?cols 2 (?r (PFloat (5 / 2))))"
    using pin_count_rejected [where cols = ?cols and r = "?r (PFloat (5 / 2))" and q = "5 / 2"
        and L = lib0 and tbl = "[]" and n = 2] g t
    by blast
  have k: "\<not> isl (import_row lib0 [] ?cols 2 (?r PNone))"
    by code_simp
  then have "import_row lib0 [] ?cols 2 (?r PNone) = Inr (projr (import_row lib0 [] ?cols 2 (?r PNone)))"
    by simp
  then have p: "getattr (projr (import_row lib0 [] ?cols 2 (?r PNone))) ''pin_count'' = PNone"
    using pin_count_rejected [where cols = ?cols and r = "?r PNone" and L = lib0
        and tbl = "[]" and n = 2
        and e = "projr (import_row lib0 [] ?cols 2 (?r PNone))"]
    by blast
  have w: "isl (import_row lib0 [] ?cols 2 (?r (PInt 48)))"
    using pin_count_rejected [where cols = ?cols and r = "?r (PInt 48)" and v = "PInt 48"
        and L = lib0 and tbl = "[]" and n = 2] g ne
    by blast
  from a i f k p w show ?thesis by blast
qed

text \<open>Three rows whose \<open>pin_count\<close> cells are the number 2.5, the text \<open>2.5\<close> and the number
  48: each is rejected with the message of the sentinel test.\<close>

lemma pin_count_examples:
  "validate_dataframe lib0 []
     \<lparr>columns = [''asset_tag'', ''name'', ''category'', ''pin_count''],
      rows = [[PStr ''EQ-1'', PStr ''Scope'', PStr ''Lab'', PFloat (5 / 2)],
              [PStr ''EQ-2'', PStr ''Probe'', PStr ''Lab'', PStr ''2.5''],
              [PStr ''EQ-3'', PStr ''Laser'', PStr ''Lab'', PInt 48]]\<rparr> =
     (\<lparr>success = 0,
       errors = [''Row 2: boolean value of NA is ambiguous'',
                 ''Row 3: boolean value of NA is ambiguous'',
                 ''Row 4: boolean value of NA is ambiguous''],
       warnings = [], total = 3\<rparr>, [])"
  by code_simp



lemma messages_append [simp]: "messages (xs @ ys) = messages xs @ messages ys"
  by (induction xs rule: messages.induct) auto

lemma drafts_append [simp]: "drafts (xs @ ys) = drafts xs @ drafts ys"
  by (induction xs rule: drafts.induct) auto









section \<open>Properties of the inventory routes\<close>

declare getattr_setattr [simp]

lemma query_get_Some:
  "query_get tbl i = Some e \<Longrightarrow> getattr e ''id'' = PInt i \<and> e \<in> set tbl"
  by (auto simp: query_get_def find_Some_iff)

lemma key_unchanged:
  assumes "query_get tbl i = Some e" "getattr e' ''id'' = PInt i" "getattr e' key = getattr e key"
  shows "\<not> key_changed key e' tbl"
  using assms by (simp add: key_changed_def query_get_def)

lemma query_get_replaced:
  assumes "query_get tbl i = Some e" "getattr e' ''id'' = PInt i"
  shows "query_get (map (\<lambda>r. if getattr r ''id'' = PInt i then e' else r) tbl) i = Some e'"
  using assms by (induction tbl) (auto simp: query_get_def)

lemma commit_update_and_movement:
  assumes "query_get (equipment_tbl db) i = Some e" "getattr e' ''id'' = PInt i"
    "getattr e' key = getattr e key"
  shows "session_commit key None k (Dirty_equipment e' # map Add_movement ms) db =
     Inr (db\<lparr>equipment_tbl :=
               map (\<lambda>r. if getattr r ''id'' = PInt i then e' else r) (equipment_tbl db),
             movement_tbl := movement_tbl db @ ms\<rparr>)"
proof -
  have m: "flush key None j (map Add_movement ms) d = Inr (d\<lparr>movement_tbl := movement_tbl d @ ms\<rparr>)"
    for j d
    by (induction ms arbitrary: j d) auto
  show ?thesis
    using key_unchanged [OF assms] assms(2)
    by (simp add: session_commit_def m)
qed

lemma log_audit_event_ok:
  "log_audit_event key None k db u act t r old new eid =
     Inr (db\<lparr>audit_tbl := audit_tbl db @
       [\<lparr>audit_user_id = u, audit_equipment_id = eid, audit_action = act, table_name = t,
         record_id = r, old_values = dumps old, new_values = dumps new\<rparr>]\<rparr>)"
  by (simp add: log_audit_event_def session_commit_def)

text \<open>
  C5.  For a stored entity: a checkout when its status is not exactly \<open>Available\<close> answers
  with the error "Equipment is not available for checkout" and returns the database
  unchanged (status, assignee and location included).  A checkout of an \<open>Available\<close> entity
  by an actor with the checkout permission, when the store does not fail, succeeds: the
  entity then has status \<open>In Use\<close>, the actor as assignee and its location as before, and
  one checkout movement event has been appended.
\<close>

theorem checkout_requires_available:
  assumes "query_get (equipment_tbl db) i = Some e"
  shows "(getattr e ''status'' \<noteq> PStr ''Available'' \<longrightarrow>
            checkout L fault db u i =
              (Flash ''Equipment is not available for checkout'' ''error'', db))
       \<and> (getattr e ''status'' = PStr ''Available'' \<and> has_permission u ''checkout''
            \<and> fault = None \<longrightarrow>
            (\<exists>db' e'.
               checkout L fault db u i =
                 (Flash (''Equipment '' @ py_str L (getattr e ''asset_tag'')
                         @ '' checked out successfully'') ''success'', db')
               \<and> query_get (equipment_tbl db') i = Some e'
               \<and> getattr e' ''status'' = PStr ''In Use''
               \<and> getattr e' ''assigned_to_id'' = PInt (uid u)
               \<and> getattr e' ''location'' = getattr e ''location''
               \<and> movement_tbl db' = movement_tbl db @
                    [\<lparr>equipment_id = PInt i, user_id = uid u, action = ''checkout'',
                      from_location = PNone, to_location = getattr e ''location'',
                      from_user_id = PNone, to_user_id = PInt (uid u),
                      movement_notes = PStr ''Self-checkout''\<rparr>]))"
proof -
  let ?e' = "setattr ''assigned_to_id'' (PInt (uid u)) (setattr ''status'' (PStr ''In Use'') e)"
  have id: "getattr e ''id'' = PInt i"
    using query_get_Some [OF assms] by simp
  have c: "session_commit ''asset_tag'' None 0 (Dirty_equipment ?e' # map Add_movement [m]) db =
     Inr (db\<lparr>equipment_tbl :=
               map (\<lambda>r. if getattr r ''id'' = PInt i then ?e' else r) (equipment_tbl db),
             movement_tbl := movement_tbl db @ [m]\<rparr>)" for m
    by (rule commit_update_and_movement [OF assms]) (simp_all add: id)
  have q: "query_get (map (\<lambda>r. if getattr r ''id'' = PInt i then ?e' else r) (equipment_tbl db)) i
             = Some ?e'"
    by (rule query_get_replaced [OF assms]) (simp add: id)
  show ?thesis
    using assms c q
    by (simp add: checkout_def is_available_def Let_def log_audit_event_ok id)
qed

theorem checkout_requires_available_witness:
  "fst (checkout lib0 None lab_db researcher 1) =
     Flash ''Equipment EQ-1 checked out successfully'' ''success''
   \<and> map (\<lambda>e. (getattr e ''status'', getattr e ''assigned_to_id''))
        (equipment_tbl (snd (checkout lib0 None lab_db researcher 1)))
       = [(PStr ''In Use'', PInt 7)]
   \<and> checkout lib0 None (lab_db\<lparr>equipment_tbl := [setattr ''status'' (PStr ''Missing'') scope]\<rparr>)
        researcher 1
       = (Flash ''Equipment is not available for checkout'' ''error'',
          lab_db\<lparr>equipment_tbl := [setattr ''status'' (PStr ''Missing'') scope]\<rparr>)"
proof -
  have q: "query_get (equipment_tbl lab_db) 1 = Some scope"
    by code_simp
  have s: "getattr scope ''status'' = PStr ''Available''" "has_permission researcher ''checkout''"
    by code_simp+
  from checkout_requires_available [OF q, where u = researcher and fault = None and L = lib0] s
  obtain db' e' where
    r: "checkout lib0 None lab_db researcher 1 =
         (Flash (''Equipment '' @ py_str lib0 (getattr scope ''asset_tag'')
                 @ '' checked out successfully'') ''success'', db')"
    by blast
  have t: "py_str lib0 (getattr scope ''asset_tag'') = ''EQ-1''"
    by code_simp
  have first: "fst (checkout lib0 None lab_db researcher 1) =
     Flash ''Equipment EQ-1 checked out successfully'' ''success''"
    using r by (simp add: t)
  have second: "map (\<lambda>e. (getattr e ''status'', getattr e ''assigned_to_id''))
        (equipment_tbl (snd (checkout lib0 None lab_db researcher 1)))
       = [(PStr ''In Use'', PInt 7)]"
    by code_simp
  let ?db = "lab_db\<lparr>equipment_tbl := [setattr ''status'' (PStr ''Missing'') scope]\<rparr>"
  have q2: "query_get (equipment_tbl ?db) 1 = Some (setattr ''status'' (PStr ''Missing'') scope)"
    by code_simp
  have s2: "getattr (setattr ''status'' (PStr ''Missing'') scope) ''status'' \<noteq> PStr ''Available''"
    by simp
  from checkout_requires_available [OF q2, where u = researcher and fault = None and L = lib0] s2
  have third: "checkout lib0 None ?db researcher 1 =
       (Flash ''Equipment is not available for checkout'' ''error'', ?db)"
    by blast
  from first second third show ?thesis by blast
qed


text \<open>
  C10.  For a stored entity with no assignee: a checkin by an actor without the update
  permission is rejected and the database is unchanged; a checkin by an actor with the
  update permission, when the store does not fail, succeeds, leaves the status \<open>Available\<close>
  and the assignee null, and appends a checkin movement event whose from-user is null.
\<close>

theorem checkin_of_unassigned:
  assumes "query_get (equipment_tbl db) i = Some e"
    and "getattr e ''assigned_to_id'' = PNone"
  shows "(\<not> has_permission u ''update'' \<longrightarrow>
            checkin L fault db u i =
              (Flash ''You can only check in equipment assigned to you'' ''error'', db))
       \<and> (has_permission u ''update'' \<and> fault = None \<longrightarrow>
            (\<exists>db' e'.
               checkin L fault db u i =
                 (Flash (''Equipment '' @ py_str L (getattr e ''asset_tag'')
                         @ '' checked in successfully'') ''success'', db')
               \<and> query_get (equipment_tbl db') i = Some e'
               \<and> getattr e' ''status'' = PStr ''Available''
               \<and> getattr e' ''assigned_to_id'' = PNone
               \<and> movement_tbl db' = movement_tbl db @
                    [\<lparr>equipment_id = PInt i, user_id = uid u, action = ''checkin'',
                      from_location = PNone, to_location = getattr e ''location'',
                      from_user_id = PNone, to_user_id = PNone,
                      movement_notes = PStr ''Equipment returned''\<rparr>]))"
proof -
  let ?e' = "setattr ''assigned_to_id'' PNone (setattr ''status'' (PStr ''Available'') e)"
  have id: "getattr e ''id'' = PInt i"
    using query_get_Some [OF assms(1)] by simp
  have c: "session_commit ''asset_tag'' None 0 (Dirty_equipment ?e' # map Add_movement [m]) db =
     Inr (db\<lparr>equipment_tbl :=
               map (\<lambda>r. if getattr r ''id'' = PInt i then ?e' else r) (equipment_tbl db),
             movement_tbl := movement_tbl db @ [m]\<rparr>)" for m
    by (rule commit_update_and_movement [OF assms(1)]) (simp_all add: id)
  have q: "query_get (map (\<lambda>r. if getattr r ''id'' = PInt i then ?e' else r) (equipment_tbl db)) i
             = Some ?e'"
    by (rule query_get_replaced [OF assms(1)]) (simp add: id)
  show ?thesis
    using assms c q
    by (simp add: checkin_def Let_def log_audit_event_ok id)
qed
theorem checkin_of_unassigned_witness:
  "fst (checkin lib0 None lab_db researcher 1) =
     Flash ''Equipment EQ-1 checked in successfully'' ''success''
   \<and> movement_tbl (snd (checkin lib0 None lab_db researcher 1)) =
       [\<lparr>equipment_id = PInt 1, user_id = 7, action = ''checkin'',
         from_location = PNone, to_location = PStr ''Room 2'',
         from_user_id = PNone, to_user_id = PNone,
         movement_notes = PStr ''Equipment returned''\<rparr>]
   \<and> checkin lib0 None lab_db reader 1 =
       (Flash ''You can only check in equipment assigned to you'' ''error'', lab_db)"
proof -
  have q: "query_get (equipment_tbl lab_db) 1 = Some scope"
    by code_simp
  have a: "getattr scope ''assigned_to_id'' = PNone"
    by code_simp
  have p: "has_permission researcher ''update''" "\<not> has_permission reader ''update''"
    by code_simp+
  have t: "py_str lib0 (getattr scope ''asset_tag'') = ''EQ-1''"
    "getattr scope ''location'' = PStr ''Room 2''" "uid researcher = 7"
    "movement_tbl lab_db = []"
    by code_simp+
  from checkin_of_unassigned [OF q a, where u = researcher and fault = None and L = lib0] p(1)
  obtain db' e' where
    r: "checkin lib0 None lab_db researcher 1 =
         (Flash (''Equipment '' @ py_str lib0 (getattr scope ''asset_tag'')
                 @ '' checked in successfully'') ''success'', db')"
     "movement_tbl db' = movement_tbl lab_db @
                    [\<lparr>equipment_id = PInt 1, user_id = uid researcher, action = ''checkin'',
                      from_location = PNone, to_location = getattr scope ''location'',
                      from_user_id = PNone, to_user_id = PNone,
                      movement_notes = PStr ''Equipment returned''\<rparr>]"
    by blast
  from checkin_of_unassigned [OF q a, where u = reader and fault = None and L = lib0] p(2)
  have third: "checkin lib0 None lab_db reader 1 =
       (Flash ''You can only check in equipment assigned to you'' ''error'', lab_db)"
    by blast
  from r third show ?thesis
    by (simp add: t)
qed


section \<open>Status and assignee after a mutation\<close>

lemma flush_Inr_None:
  "flush key fault k ws db = Inr db' \<Longrightarrow> flush key None k ws db = Inr db'"
  by (induction ws arbitrary: k db) (auto split: if_splits sum.splits)

lemma flush_movements_equipment:
  "flush key fault k (map Add_movement ms) d = Inr d' \<Longrightarrow> equipment_tbl d' = equipment_tbl d"
  by (induction ms arbitrary: k d) (auto split: if_splits)

lemma dirty_commit_result:
  assumes "session_commit key fault k (Dirty_equipment e' # map Add_movement ms) db = Inr db1"
    and "query_get (equipment_tbl db) i = Some e" and "getattr e' ''id'' = PInt i"
  shows "query_get (equipment_tbl db1) i = Some e'"
proof -
  from assms(1) obtain d where
    d: "apply_write key (Dirty_equipment e') db = Inr d"
    and f: "flush key fault (Suc k) (map Add_movement ms) d = Inr db1"
    by (auto simp: session_commit_def split: if_splits sum.splits)
  from d have "equipment_tbl d =
      map (\<lambda>r. if getattr r ''id'' = PInt i then e' else r) (equipment_tbl db)"
    by (auto simp: assms(3) split: if_splits)
  with flush_movements_equipment [OF f] query_get_replaced [OF assms(2,3)]
  show ?thesis by simp
qed

lemma audit_keeps_equipment:
  "log_audit_event key fault k db u act t r old new eid = Inr db' \<Longrightarrow>
   equipment_tbl db' = equipment_tbl db"
  by (auto simp: log_audit_event_def session_commit_def split: if_splits)

lemma checkout_completed:
  assumes "checkout L fault db u i = (Flash m ''success'', db')"
  shows "\<exists>e'. query_get (equipment_tbl db') i = Some e'
            \<and> getattr e' ''status'' = PStr ''In Use''
            \<and> getattr e' ''assigned_to_id'' = PInt (uid u)"
proof -
  from assms obtain e where q: "query_get (equipment_tbl db) i = Some e"
    by (cases "query_get (equipment_tbl db) i") (auto simp: checkout_def)
  let ?e' = "setattr ''assigned_to_id'' (PInt (uid u)) (setattr ''status'' (PStr ''In Use'') e)"
  have id: "getattr ?e' ''id'' = PInt i"
    using query_get_Some [OF q] by simp
  from assms q obtain db1 mv where
    c: "session_commit ''asset_tag'' fault 0 (Dirty_equipment ?e' # map Add_movement [mv]) db
          = Inr db1"
    and a: "equipment_tbl db' = equipment_tbl db1"
    by (auto simp: checkout_def Let_def split: if_splits sum.splits dest: audit_keeps_equipment)
  from dirty_commit_result [OF c q id] a show ?thesis
    by (intro exI [of _ ?e']) simp
qed

lemma checkin_completed:
  assumes "checkin L fault db u i = (Flash m ''success'', db')"
  shows "\<exists>e'. query_get (equipment_tbl db') i = Some e'
            \<and> getattr e' ''status'' = PStr ''Available''
            \<and> getattr e' ''assigned_to_id'' = PNone"
proof -
  from assms obtain e where q: "query_get (equipment_tbl db) i = Some e"
    by (cases "query_get (equipment_tbl db) i") (auto simp: checkin_def)
  let ?e' = "setattr ''assigned_to_id'' PNone (setattr ''status'' (PStr ''Available'') e)"
  have id: "getattr ?e' ''id'' = PInt i"
    using query_get_Some [OF q] by simp
  from assms q obtain db1 mv where
    c: "session_commit ''asset_tag'' fault 0 (Dirty_equipment ?e' # map Add_movement [mv]) db
          = Inr db1"
    and a: "equipment_tbl db' = equipment_tbl db1"
    by (auto simp: checkin_def Let_def split: if_splits sum.splits dest: audit_keeps_equipment)
  from dirty_commit_result [OF c q id] a show ?thesis
    by (intro exI [of _ ?e']) simp
qed

lemma getattr_assign_all:
  "getattr (assign_all kvs e) k =
     (case map_of (rev kvs) k of None \<Rightarrow> getattr e k | Some v \<Rightarrow> v)"
proof (induction kvs arbitrary: e)
  case Nil
  show ?case by (simp add: assign_all_def)
next
  case (Cons kv kvs)
  obtain k' v where kv: "kv = (k', v)" by (cases kv)
  have "assign_all (kv # kvs) e = assign_all kvs (setattr k' v e)"
    by (simp add: assign_all_def kv)
  then show ?case
    using Cons.IH [of "setattr k' v e"]
    by (simp add: kv map_add_def split: option.splits)
qed

lemma map_of_assign_if [simp]:
  "map_of (assign_if k vo) k' = (if k' = k then vo else None)"
  by (simp add: assign_if_def split: option.splits)

lemma rev_assign_if [simp]: "rev (assign_if k vo) = assign_if k vo"
  by (simp add: assign_if_def split: option.splits)

lemma form_assigned_cases:
  "form_assigned f = Inr a \<Longrightarrow>
   (names_assignee f \<longrightarrow> (\<exists>n. a = Some (PInt n))) \<and> (\<not> names_assignee f \<longrightarrow> a = None)"
  by (cases "int_of_str (the (map_of f ''assigned_to''))")
     (auto simp: form_assigned_def names_assignee_def split: option.splits if_splits)

lemma edit_form_result:
  assumes "edit_form L u f e = Inr (e1, ms)"
  shows "\<exists>a. form_assigned f = Inr a
     \<and> getattr e1 ''id'' = getattr e ''id''
     \<and> getattr e1 ''assigned_to_id'' = or_none a
     \<and> getattr e1 ''status'' =
         (if getattr e ''assigned_to_id'' \<noteq> or_none a
          then PStr (if truthy (or_none a) then ''In Use'' else ''Available'')
          else PStr (form_get_or f ''status'' ''Available''))"
  using assms
  by (auto simp: edit_form_def try_bind_def Let_def getattr_assign_all map_add_def
           split: sum.splits)

lemma edit_completed:
  assumes "edit L fault db u i f = (Flash m ''success'', db')"
    and q: "query_get (equipment_tbl db) i = Some e"
  shows "\<exists>a e'. form_assigned f = Inr a
     \<and> query_get (equipment_tbl db') i = Some e'
     \<and> getattr e' ''assigned_to_id'' = or_none a
     \<and> getattr e' ''status'' =
         (if getattr e ''assigned_to_id'' \<noteq> or_none a
          then PStr (if truthy (or_none a) then ''In Use'' else ''Available'')
          else PStr (form_get_or f ''status'' ''Available''))"
proof -
  from assms have "\<exists>e1 ms db1. edit_form L u f e = Inr (e1, ms)
      \<and> session_commit ''asset_tag'' fault 0 (Dirty_equipment e1 # map Add_movement ms) db
          = Inr db1
      \<and> equipment_tbl db' = equipment_tbl db1"
    by (auto simp: edit_def flash_exception_def split: if_splits sum.splits exc.splits
             dest: audit_keeps_equipment)
  then obtain e1 ms db1 where
    ef: "edit_form L u f e = Inr (e1, ms)"
    and c: "session_commit ''asset_tag'' fault 0 (Dirty_equipment e1 # map Add_movement ms) db
          = Inr db1"
    and a: "equipment_tbl db' = equipment_tbl db1"
    by blast
  from edit_form_result [OF ef] obtain a where
    r: "form_assigned f = Inr a" "getattr e1 ''id'' = getattr e ''id''"
      "getattr e1 ''assigned_to_id'' = or_none a"
      "getattr e1 ''status'' =
         (if getattr e ''assigned_to_id'' \<noteq> or_none a
          then PStr (if truthy (or_none a) then ''In Use'' else ''Available'')
          else PStr (form_get_or f ''status'' ''Available''))"
    by blast
  have id: "getattr e1 ''id'' = PInt i"
    using r(2) query_get_Some [OF q] by simp
  from dirty_commit_result [OF c q id] a r show ?thesis
    by (intro exI [of _ a] exI [of _ e1]) simp
qed

lemma getattr_Nil: "getattr [] k = PNone"
  by (simp add: getattr_def)

lemma add_form_result:
  assumes "add_form L f = Inr e"
  shows "\<exists>a. form_assigned f = Inr a
     \<and> getattr e ''assigned_to_id'' = or_none a
     \<and> getattr e ''status'' =
         (if a = None then PStr (form_get_or f ''status'' ''Available'') else PStr ''In Use'')"
  using assms
  by (auto simp: add_form_def try_bind_def getattr_assign_all map_add_def or_none_def
                 getattr_Nil
           split: sum.splits option.splits)

lemma getattr_insert_row:
  "k \<noteq> ''id'' \<Longrightarrow> k \<noteq> ''condition'' \<Longrightarrow> getattr e k \<noteq> PNone \<or> k \<noteq> ''status'' \<Longrightarrow>
   getattr (insert_row tbl e) k = getattr e k"
  by (auto simp: insert_row_def with_default_def)

lemma commit_movement_keeps_equipment:
  "session_commit key fault k [Add_movement mv] d = Inr d' \<Longrightarrow>
   equipment_tbl d' = equipment_tbl d"
  by (auto simp: session_commit_def split: if_splits)

lemma add_completed:
  assumes "add_equipment L fault db u f = (Flash m ''success'', db')"
  shows "\<exists>e'. equipment_tbl db' = equipment_tbl db @ [e']
     \<and> (if names_assignee f
         then getattr e' ''status'' = PStr ''In Use'' \<and> getattr e' ''assigned_to_id'' \<noteq> PNone
         else getattr e' ''status'' = PStr (form_get_or f ''status'' ''Available'')
              \<and> getattr e' ''assigned_to_id'' = PNone)"
proof -
  from assms have "\<exists>e db1. add_form L f = Inr e
      \<and> session_commit ''asset_tag'' fault 0 [Add_equipment e] db = Inr db1
      \<and> equipment_tbl db' = equipment_tbl db1"
    by (auto simp: add_equipment_def flash_exception_def Let_def
             split: if_splits sum.splits exc.splits
             dest!: audit_keeps_equipment commit_movement_keeps_equipment)
  then obtain e db1 where
    af: "add_form L f = Inr e"
    and c: "session_commit ''asset_tag'' fault 0 [Add_equipment e] db = Inr db1"
    and a: "equipment_tbl db' = equipment_tbl db1"
    by blast
  from c have t: "equipment_tbl db1 =
       equipment_tbl db @ [insert_row (equipment_tbl db) e]"
    by (auto simp: session_commit_def split: if_splits)
  from add_form_result [OF af] obtain a where
    r: "form_assigned f = Inr a" "getattr e ''assigned_to_id'' = or_none a"
      "getattr e ''status'' =
         (if a = None then PStr (form_get_or f ''status'' ''Available'') else PStr ''In Use'')"
    by blast
  have "getattr (insert_row (equipment_tbl db) e) ''status'' = getattr e ''status''"
    "getattr (insert_row (equipment_tbl db) e) ''assigned_to_id''
       = getattr e ''assigned_to_id''"
    using r(3) by (simp_all add: getattr_insert_row)
  with form_assigned_cases [OF r(1)] r a t show ?thesis
    by (intro exI [of _ "insert_row (equipment_tbl db) e"])
       (auto simp: or_none_def)
qed

lemma import_row_unassigned:
  "import_row L tbl cols n r = Inr e \<Longrightarrow> getattr e ''assigned_to_id'' = PNone"
proof -
  assume a: "import_row L tbl cols n r = Inr e"
  from import_row_accepted [OF a] obtain e0 where
    s: "set_optional L OPTIONAL_FIELDS (\<lambda>f. row_getattr cols r f PNone) e0 = Inr e"
    and e0: "getattr e0 ''assigned_to_id'' = PNone"
    using a
    by (auto simp: import_row_def Let_def getattr_Nil split: if_splits sum.splits)
  have "''assigned_to_id'' \<notin> set OPTIONAL_FIELDS"
    by (simp add: OPTIONAL_FIELDS_def)
  from set_optional_frame [OF s this] e0 show ?thesis by simp
qed

lemma drafts_mem: "e \<in> set (drafts os) \<Longrightarrow> Inr e \<in> set os"
  by (induction os rule: drafts.induct) auto

lemma row_outcomes_mem:
  "x \<in> set (row_outcomes L tbl cols n rs) \<Longrightarrow> \<exists>k r. x = import_row L tbl cols k r"
  by (auto simp: row_outcomes_def)

lemma import_row_no_status:
  "import_row L tbl cols n r = Inr e \<Longrightarrow> getattr e ''status'' = PNone"
proof -
  assume a: "import_row L tbl cols n r = Inr e"
  have "''status'' \<in> set OPTIONAL_FIELDS"
    by (simp add: OPTIONAL_FIELDS_def)
  from import_row_optional_None [OF a this] show ?thesis .
qed

lemma validate_unassigned:
  assumes "validate_dataframe L tbl df = (res, eqs)" and "e \<in> set eqs"
  shows "getattr e ''assigned_to_id'' = PNone \<and> getattr e ''status'' = PNone"
proof -
  from assms have "e \<in> set (drafts (row_outcomes L tbl (columns df) 2
                                       (map (map replace_missing) (rows df))))"
    by (auto simp: validate_dataframe_def import_rows_outcomes Let_def split: if_splits)
  from row_outcomes_mem [OF drafts_mem [OF this]] import_row_unassigned import_row_no_status
  show ?thesis
    by metis
qed

lemma insert_row_default_status:
  "getattr e ''status'' = PNone \<Longrightarrow> getattr (insert_row tbl e) ''status'' = PStr ''Available''"
  by (simp add: insert_row_def with_default_def)

lemma flush_added_rows:
  assumes "flush key fault k (map Add_equipment es) d = Inr d'"
    and "\<forall>e \<in> set es. getattr e ''assigned_to_id'' = PNone \<and> getattr e ''status'' = PNone"
  shows "\<forall>e' \<in> set (equipment_tbl d').
           e' \<in> set (equipment_tbl d) \<or>
           getattr e' ''assigned_to_id'' = PNone \<and> getattr e' ''status'' = PStr ''Available''"
  using assms
proof (induction es arbitrary: k d)
  case Nil
  then show ?case by simp
next
  case (Cons x es)
  from Cons.prems(1) obtain d1 where
    d1: "d1 = d\<lparr>equipment_tbl := equipment_tbl d @ [insert_row (equipment_tbl d) x]\<rparr>"
    and f: "flush key fault (Suc k) (map Add_equipment es) d1 = Inr d'"
    by (auto split: if_splits)
  have x: "getattr (insert_row (equipment_tbl d) x) ''assigned_to_id'' = PNone"
    "getattr (insert_row (equipment_tbl d) x) ''status'' = PStr ''Available''"
    using Cons.prems(2) by (simp_all add: getattr_insert_row insert_row_default_status)
  from Cons.IH [OF f] Cons.prems(2) x d1 show ?case
    by auto
qed

lemma import_rows_unassigned:
  assumes "import_from_dataframe L fault db df actor False = (res, db')"
    and "e' \<in> set (equipment_tbl db')"
  shows "e' \<in> set (equipment_tbl db) \<or>
         getattr e' ''assigned_to_id'' = PNone \<and> getattr e' ''status'' = PStr ''Available''"
proof -
  obtain r eqs where v: "validate_dataframe L (equipment_tbl db) df = (r, eqs)"
    by (cases "validate_dataframe L (equipment_tbl db) df")
  have u: "\<forall>e \<in> set eqs. getattr e ''assigned_to_id'' = PNone \<and> getattr e ''status'' = PNone"
    using validate_unassigned [OF v] by blast
  show ?thesis
  proof (cases "session_commit ''asset_tag'' fault 0 (map Add_equipment eqs) db")
    case (Inl x)
    with assms v show ?thesis
      by (auto simp: import_from_dataframe_def split: if_splits)
  next
    case (Inr db1)
    then have "\<forall>e' \<in> set (equipment_tbl db1).
           e' \<in> set (equipment_tbl db) \<or>
           getattr e' ''assigned_to_id'' = PNone \<and> getattr e' ''status'' = PStr ''Available''"
      using flush_added_rows [OF _ u] by (simp add: session_commit_def)
    moreover have "equipment_tbl db' = equipment_tbl db1 \<or> db' = db"
      using assms(1) v Inr
      by (auto simp: import_from_dataframe_def split: if_splits sum.splits
               dest: audit_keeps_equipment)
    ultimately show ?thesis using assms(2) by auto
  qed
qed

text \<open>A bulk-import row whose status cell is \<open>In Use\<close> is rejected by the sentinel test
  and nothing is stored; a row whose status cell is \<open>NA\<close> is committed with the column
  default \<open>Available\<close> and no assignee.\<close>

lemma status_cell_examples:
  "import_from_dataframe lib0 None empty_db
     \<lparr>columns = [''asset_tag'', ''name'', ''category'', ''status''],
      rows = [[PStr ''EQ-9'', PStr ''Laser'', PStr ''Lab'', PStr ''In Use'']]\<rparr> 1 False =
     (\<lparr>success = 0, errors = [''Row 2: boolean value of NA is ambiguous''],
       warnings = [], total = 1\<rparr>, empty_db)
   \<and> map (\<lambda>e. (getattr e ''status'', getattr e ''assigned_to_id''))
        (equipment_tbl (snd (import_from_dataframe lib0 None empty_db
           \<lparr>columns = [''asset_tag'', ''name'', ''category'', ''status''],
            rows = [[PStr ''EQ-9'', PStr ''Laser'', PStr ''Lab'', PStr ''NA'']]\<rparr> 1 False)))
       = [(PStr ''Available'', PNone)]"
  by code_simp

text \<open>
  C1, as the code has it.  After a completed checkout or checkin the entity's assignee is
  non-null exactly when its status is \<open>In Use\<close>.  After a completed manual add that names
  an assignee the same holds; an add that names none stores the submitted status with a
  null assignee.  After a completed manual edit the assignee is the submitted one; when it
  differs from the stored one the status is \<open>In Use\<close> for a non-null, non-zero assignee
  and \<open>Available\<close> otherwise, and then (the submitted assignee not being zero) the
  equivalence holds; when it does not differ the status is the submitted one.  Every row
  that a bulk import adds has a null assignee and the status \<open>Available\<close>, so the
  equivalence holds of it.
\<close>

theorem assignment_after_mutation:
  "(checkout L fault db u i = (Flash m ''success'', db') \<longrightarrow>
      (\<exists>e'. query_get (equipment_tbl db') i = Some e' \<and> assignment_consistent e'))
   \<and> (checkin L fault db u i = (Flash m ''success'', db') \<longrightarrow>
      (\<exists>e'. query_get (equipment_tbl db') i = Some e' \<and> assignment_consistent e'))
   \<and> (add_equipment L fault db u f = (Flash m ''success'', db') \<longrightarrow>
      (\<exists>e'. equipment_tbl db' = equipment_tbl db @ [e'] \<and>
            (if names_assignee f then assignment_consistent e'
             else getattr e' ''assigned_to_id'' = PNone
                  \<and> getattr e' ''status'' = PStr (form_get_or f ''status'' ''Available''))))
   \<and> (query_get (equipment_tbl db) i = Some e
        \<and> edit L fault db u i f = (Flash m ''success'', db') \<longrightarrow>
      (\<exists>a e'. form_assigned f = Inr a \<and> query_get (equipment_tbl db') i = Some e'
         \<and> getattr e' ''assigned_to_id'' = or_none a
         \<and> (if getattr e ''assigned_to_id'' \<noteq> or_none a
            then getattr e' ''status''
                   = PStr (if truthy (or_none a) then ''In Use'' else ''Available'')
                 \<and> (or_none a \<noteq> PInt 0 \<longrightarrow> assignment_consistent e')
            else getattr e' ''status'' = PStr (form_get_or f ''status'' ''Available''))))
   \<and> (import_from_dataframe L fault db df actor False = (res, db') \<longrightarrow>
      (\<forall>e' \<in> set (equipment_tbl db').
          e' \<in> set (equipment_tbl db) \<or>
          getattr e' ''assigned_to_id'' = PNone \<and> getattr e' ''status'' = PStr ''Available''
          \<and> assignment_consistent e'))"
proof -
  have c1: "\<exists>e'. query_get (equipment_tbl db') i = Some e' \<and> assignment_consistent e'"
    if "checkout L fault db u i = (Flash m ''success'', db')"
    using checkout_completed [OF that] by (auto simp: assignment_consistent_def)
  have c2: "\<exists>e'. query_get (equipment_tbl db') i = Some e' \<and> assignment_consistent e'"
    if "checkin L fault db u i = (Flash m ''success'', db')"
    using checkin_completed [OF that] by (auto simp: assignment_consistent_def)
  have c3: "\<exists>e'. equipment_tbl db' = equipment_tbl db @ [e'] \<and>
            (if names_assignee f then assignment_consistent e'
             else getattr e' ''assigned_to_id'' = PNone
                  \<and> getattr e' ''status'' = PStr (form_get_or f ''status'' ''Available''))"
    if "add_equipment L fault db u f = (Flash m ''success'', db')"
    using add_completed [OF that] by (auto simp: assignment_consistent_def split: if_splits)
  have c4: "\<exists>a e'. form_assigned f = Inr a \<and> query_get (equipment_tbl db') i = Some e'
         \<and> getattr e' ''assigned_to_id'' = or_none a
         \<and> (if getattr e ''assigned_to_id'' \<noteq> or_none a
            then getattr e' ''status''
                   = PStr (if truthy (or_none a) then ''In Use'' else ''Available'')
                 \<and> (or_none a \<noteq> PInt 0 \<longrightarrow> assignment_consistent e')
            else getattr e' ''status'' = PStr (form_get_or f ''status'' ''Available''))"
    if q: "query_get (equipment_tbl db) i = Some e"
      and ed: "edit L fault db u i f = (Flash m ''success'', db')"
  proof -
    from edit_completed [OF ed q] obtain a e' where
      r: "form_assigned f = Inr a" "query_get (equipment_tbl db') i = Some e'"
        "getattr e' ''assigned_to_id'' = or_none a"
        "getattr e' ''status'' =
           (if getattr e ''assigned_to_id'' \<noteq> or_none a
            then PStr (if truthy (or_none a) then ''In Use'' else ''Available'')
            else PStr (form_get_or f ''status'' ''Available''))"
      by blast
    have "a = None \<or> (\<exists>n. a = Some (PInt n))"
      using form_assigned_cases [OF r(1)] by blast
    then have "assignment_consistent e'"
      if "getattr e ''assigned_to_id'' \<noteq> or_none a" "or_none a \<noteq> PInt 0"
      using that r(3,4) by (auto simp: assignment_consistent_def or_none_def)
    with r show ?thesis
      by (intro exI [of _ a] exI [of _ e']) simp
  qed
  have c5: "\<forall>e' \<in> set (equipment_tbl db').
          e' \<in> set (equipment_tbl db) \<or>
          getattr e' ''assigned_to_id'' = PNone \<and> getattr e' ''status'' = PStr ''Available''
          \<and> assignment_consistent e'"
    if i: "import_from_dataframe L fault db df actor False = (res, db')"
  proof
    fix e'
    assume "e' \<in> set (equipment_tbl db')"
    from import_rows_unassigned [OF i this]
    show "e' \<in> set (equipment_tbl db) \<or>
          getattr e' ''assigned_to_id'' = PNone \<and> getattr e' ''status'' = PStr ''Available''
          \<and> assignment_consistent e'"
      by (auto simp: assignment_consistent_def)
  qed
  from c1 c2 c3 c4 c5 show ?thesis by blast
qed

theorem assignment_after_mutation_witness:
  "checkout lib0 None lab_db researcher 1 =
     (Flash ''Equipment EQ-1 checked out successfully'' ''success'',
      snd (checkout lib0 None lab_db researcher 1))
   \<and> (\<exists>e'. query_get (equipment_tbl (snd (checkout lib0 None lab_db researcher 1))) 1 = Some e'
           \<and> assignment_consistent e')
   \<and> edit lib0 None lab_db admin 1
        [(''asset_tag'', ''EQ-1''), (''name'', ''Scope''), (''category'', ''Lab''),
         (''status'', ''Retired''), (''assigned_to'', ''7'')] =
     (Flash ''Equipment EQ-1 updated successfully'' ''success'',
      snd (edit lib0 None lab_db admin 1
        [(''asset_tag'', ''EQ-1''), (''name'', ''Scope''), (''category'', ''Lab''),
         (''status'', ''Retired''), (''assigned_to'', ''7'')]))
   \<and> (\<exists>e'. query_get (equipment_tbl (snd (edit lib0 None lab_db admin 1
        [(''asset_tag'', ''EQ-1''), (''name'', ''Scope''), (''category'', ''Lab''),
         (''status'', ''Retired''), (''assigned_to'', ''7'')]))) 1 = Some e'
           \<and> getattr e' ''status'' = PStr ''In Use'' \<and> getattr e' ''assigned_to_id'' = PInt 7)
   \<and> length (equipment_tbl (snd (import_from_dataframe lib0 None empty_db
           \<lparr>columns = [''asset_tag'', ''name'', ''category'', ''status''],
            rows = [[PStr ''EQ-9'', PStr ''Laser'', PStr ''Lab'', PStr ''NA'']]\<rparr> 1 False))) = 1
   \<and> assignment_consistent (hd (equipment_tbl (snd (import_from_dataframe lib0 None empty_db
           \<lparr>columns = [''asset_tag'', ''name'', ''category'', ''status''],
            rows = [[PStr ''EQ-9'', PStr ''Laser'', PStr ''Lab'', PStr ''NA'']]\<rparr> 1 False))))"
proof -
  let ?f = "[(''asset_tag'', ''EQ-1''), (''name'', ''Scope''), (''category'', ''Lab''),
             (''status'', ''Retired''), (''assigned_to'', ''7'')]"
  let ?df = "\<lparr>columns = [''asset_tag'', ''name'', ''category'', ''status''],
            rows = [[PStr ''EQ-9'', PStr ''Laser'', PStr ''Lab'', PStr ''NA'']]\<rparr>"
  let ?imp = "import_from_dataframe lib0 None empty_db ?df 1 False"
  have len: "length (equipment_tbl (snd ?imp)) = 1"
    by code_simp
  then have m: "hd (equipment_tbl (snd ?imp)) \<in> set (equipment_tbl (snd ?imp))"
    by (cases "equipment_tbl (snd ?imp)") auto
  have em: "equipment_tbl empty_db = []"
    by (simp add: empty_db_def)
  have i: "?imp = (fst ?imp, snd ?imp)" by simp
  from assignment_after_mutation
    [where L = lib0 and fault = None and db = empty_db and df = ?df and actor = 1
       and res = "fst ?imp" and db' = "snd ?imp",
     THEN conjunct2, THEN conjunct2, THEN conjunct2, THEN conjunct2] i m em
  have third: "assignment_consistent (hd (equipment_tbl (snd ?imp)))"
    by auto
  have "fst (checkout lib0 None lab_db researcher 1) =
          Flash ''Equipment EQ-1 checked out successfully'' ''success''"
    by code_simp
  then have c: "checkout lib0 None lab_db researcher 1 =
     (Flash ''Equipment EQ-1 checked out successfully'' ''success'',
      snd (checkout lib0 None lab_db researcher 1))"
    by (metis prod.collapse)
  have "fst (edit lib0 None lab_db admin 1 ?f) =
          Flash ''Equipment EQ-1 updated successfully'' ''success''"
    by code_simp
  then have e: "edit lib0 None lab_db admin 1 ?f =
     (Flash ''Equipment EQ-1 updated successfully'' ''success'',
      snd (edit lib0 None lab_db admin 1 ?f))"
    by (metis prod.collapse)
  have q: "query_get (equipment_tbl lab_db) 1 = Some scope"
    by code_simp
  have a: "form_assigned ?f = Inr (Some (PInt 7))"
    by code_simp
  have o: "getattr scope ''assigned_to_id'' \<noteq> or_none (Some (PInt 7))"
    "or_none (Some (PInt 7)) = PInt 7" "truthy (PInt 7)"
    by code_simp+
  note inst = assignment_after_mutation
    [where L = lib0 and fault = None and db = lab_db and i = 1 and e = scope]
  from inst [where u = researcher, THEN conjunct1] c
  have first: "\<exists>e'. query_get (equipment_tbl (snd (checkout lib0 None lab_db researcher 1))) 1
                 = Some e' \<and> assignment_consistent e'"
    by blast
  from inst [where u = admin and f = ?f, THEN conjunct2, THEN conjunct2, THEN conjunct2,
             THEN conjunct1] q e
  obtain a' e' where
    r: "form_assigned ?f = Inr a'"
       "query_get (equipment_tbl (snd (edit lib0 None lab_db admin 1 ?f))) 1 = Some e'"
       "getattr e' ''assigned_to_id'' = or_none a'"
       "if getattr scope ''assigned_to_id'' \<noteq> or_none a'
        then getattr e' ''status'' = PStr (if truthy (or_none a') then ''In Use'' else ''Available'')
             \<and> (or_none a' \<noteq> PInt 0 \<longrightarrow> assignment_consistent e')
        else getattr e' ''status'' = PStr (form_get_or ?f ''status'' ''Available'')"
    by blast
  from r(1) a have a': "a' = Some (PInt 7)" by simp
  from r(3,4) o have "getattr e' ''status'' = PStr ''In Use''"
    "getattr e' ''assigned_to_id'' = PInt 7"
    unfolding a' by simp_all
  with r(2) have second: "\<exists>e'. query_get (equipment_tbl (snd (edit lib0 None lab_db admin 1 ?f))) 1
         = Some e' \<and> getattr e' ''status'' = PStr ''In Use''
           \<and> getattr e' ''assigned_to_id'' = PInt 7"
    by blast
  from c first e second len third show ?thesis by blast
qed

text \<open>An edit that keeps an unassigned entity unassigned and submits the status \<open>In Use\<close>
  completes with status \<open>In Use\<close> and no assignee; so does an add that names no assignee
  and submits the status \<open>In Use\<close>.  An edit that submits the assignee \<open>0\<close> for an unassigned
  entity completes with the assignee 0 and the status \<open>Available\<close>.\<close>

theorem status_without_assignee_counterexample:
  "fst (edit lib0 None lab_db admin 1
        [(''asset_tag'', ''EQ-1''), (''name'', ''Scope''), (''category'', ''Lab''),
         (''status'', ''In Use'')])
     = Flash ''Equipment EQ-1 updated successfully'' ''success''
   \<and> map (\<lambda>e. (getattr e ''status'', getattr e ''assigned_to_id''))
        (equipment_tbl (snd (edit lib0 None lab_db admin 1
           [(''asset_tag'', ''EQ-1''), (''name'', ''Scope''), (''category'', ''Lab''),
            (''status'', ''In Use'')])))
       = [(PStr ''In Use'', PNone)]
   \<and> fst (add_equipment lib0 None empty_db admin
        [(''asset_tag'', ''EQ-9''), (''name'', ''Laser''), (''category'', ''Lab''),
         (''status'', ''In Use'')])
     = Flash ''Equipment EQ-9 added successfully'' ''success''
   \<and> map (\<lambda>e. (getattr e ''status'', getattr e ''assigned_to_id''))
        (equipment_tbl (snd (add_equipment lib0 None empty_db admin
           [(''asset_tag'', ''EQ-9''), (''name'', ''Laser''), (''category'', ''Lab''),
            (''status'', ''In Use'')])))
       = [(PStr ''In Use'', PNone)]
   \<and> fst (edit lib0 None lab_db admin 1
        [(''asset_tag'', ''EQ-1''), (''name'', ''Scope''), (''category'', ''Lab''),
         (''status'', ''In Use''), (''assigned_to'', ''0'')])
     = Flash ''Equipment EQ-1 updated successfully'' ''success''
   \<and> map (\<lambda>e. (getattr e ''status'', getattr e ''assigned_to_id''))
        (equipment_tbl (snd (edit lib0 None lab_db admin 1
           [(''asset_tag'', ''EQ-1''), (''name'', ''Scope''), (''category'', ''Lab''),
            (''status'', ''In Use''), (''assigned_to'', ''0'')])))
       = [(PStr ''Available'', PInt 0)]"
  by code_simp

end
